theory Spec2Isabelle
  imports Main "HOL-Library.Word"
begin

unbundle bit_operations_syntax

section \<open>The HIDv5 interface of the emulated USB stack (HIDv5.cpp)\<close>

text \<open>
  The theory embeds \<^verbatim>\<open>Source/Core/Core/IOS/USB/USB_HID/HIDv5.cpp\<close>: the two
  dispatchers \<^verbatim>\<open>IOCtl\<close> and \<^verbatim>\<open>IOCtlV\<close> and the handlers
  \<^verbatim>\<open>SubmitTransfer\<close>, \<^verbatim>\<open>CancelEndpoint\<close> and \<^verbatim>\<open>GetDeviceInfo\<close>.
  Logging calls are left out. Everything the file calls but does not define
  (guest memory, the descriptor structs, the device registry, the host device, the
  numeric command identifiers) is either modelled from the specification, and said
  so, or taken as a field of the record \<open>env\<close> below, so that every theorem
  holds for whatever those collaborators are.
\<close>

type_synonym u8 = "8 word"
type_synonym u32 = "32 word"

subsection \<open>Guest memory\<close>

text \<open>
  Modelled from the spec: the guest memory subsystem (\<^verbatim>\<open>Core/HW/Memmap\<close>,
  namespace \<^verbatim>\<open>Memory\<close>) is not part of the source file. The specification gives
  its interface: read and write fixed-width integers and byte ranges at guest-supplied
  addresses, bulk copy from host memory into guest memory, zero-fill of a guest address
  range, every multi-byte field in big-endian order. Guest memory is a flat array of
  bytes indexed by a 32-bit address; address arithmetic is that of \<^verbatim>\<open>u32\<close> and
  wraps around.
\<close>

type_synonym memory = "u32 \<Rightarrow> u8"

text \<open>Modelled from the spec: \<^verbatim>\<open>Memory::Read_U8(address)\<close>, the byte at the address.\<close>

definition Read_U8 :: "u32 \<Rightarrow> memory \<Rightarrow> u8" where
  "Read_U8 a m = m a"

text \<open>
  Modelled from the spec: \<^verbatim>\<open>Memory::Read_U32(address)\<close>, the four bytes from the
  address on as a big-endian number.
\<close>

definition Read_U32 :: "u32 \<Rightarrow> memory \<Rightarrow> u32" where
  "Read_U32 a m =
     push_bit 24 (ucast (m a)) OR push_bit 16 (ucast (m (a + 1))) OR
     push_bit 8 (ucast (m (a + 2))) OR ucast (m (a + 3))"

text \<open>The four bytes of a 32-bit value, most significant first.\<close>

definition be32 :: "u32 \<Rightarrow> u8 list" where
  "be32 v = [ucast (drop_bit 24 v), ucast (drop_bit 16 v), ucast (drop_bit 8 v), ucast v]"

text \<open>
  Modelled from the spec: \<^verbatim>\<open>Memory::CopyToEmu(address, data, size)\<close>, the bulk copy
  into guest memory; the list is the \<open>size\<close> bytes at \<open>data\<close>.
\<close>

fun CopyToEmu :: "u32 \<Rightarrow> u8 list \<Rightarrow> memory \<Rightarrow> memory" where
  "CopyToEmu a [] m = m"
| "CopyToEmu a (b # bs) m = CopyToEmu (a + 1) bs (m(a := b))"

text \<open>
  Modelled from the spec: \<^verbatim>\<open>Memory::Write_U32(value, address)\<close> stores the value in
  big-endian order.
\<close>

definition Write_U32 :: "u32 \<Rightarrow> u32 \<Rightarrow> memory \<Rightarrow> memory" where
  "Write_U32 v a m = CopyToEmu a (be32 v) m"

text \<open>
  Modelled from the spec: \<^verbatim>\<open>Memory::Memset(address, value, size)\<close> fills the
  \<open>size\<close> bytes from \<open>address\<close> on.
\<close>

definition Memset :: "u32 \<Rightarrow> u8 \<Rightarrow> u32 \<Rightarrow> memory \<Rightarrow> memory" where
  "Memset a v n m = (\<lambda>x. if x - a < n then v else m x)"

subsection \<open>Requests and replies\<close>

text \<open>
  The request structs, the reply type and the return codes are declared outside the
  source file; only the members the file names are modelled. \<open>IPC_OTHER\<close> stands
  for every other value of the \<^verbatim>\<open>s32\<close> return code that a host device may hand
  back from a submission.
\<close>

record IOCtlRequest =
  request :: u32
  buffer_in :: u32
  buffer_in_size :: u32
  buffer_out :: u32
  buffer_out_size :: u32

record IOVector =
  address :: u32
  size_iov :: u32

record IOCtlVRequest =
  request_v :: u32
  in_vectors :: "IOVector list"
  io_vectors :: "IOVector list"

datatype ReturnCode = IPC_SUCCESS | IPC_EINVAL | IPC_OTHER int

datatype IPCCommandResult = GetDefaultReply ReturnCode | GetNoReply

subsection \<open>Descriptors\<close>

text \<open>
  The descriptor structs of \<^verbatim>\<open>Core/IOS/USB/Common.h\<close> are not part of the source
  file. The file reads two one-byte members of an interface descriptor and two of an
  endpoint descriptor; every other member is the extension of the record, and the
  device and configuration descriptors, of which no member is read, are type
  parameters. What \<^verbatim>\<open>d.Swap()\<close> followed by
  \<^verbatim>\<open>CopyToEmu(address, &d, sizeof(d))\<close> puts into guest memory (the
  \<^verbatim>\<open>sizeof(d)\<close> bytes of the byte-swapped struct) is a parameter, one function for
  each of the four structs, in the record \<open>env\<close>. A byte swap exchanges the bytes of
  the multi-byte members only, so the one-byte members read after \<^verbatim>\<open>it->Swap()\<close>
  are those of the descriptor before it.
\<close>

record InterfaceDescriptor =
  bInterfaceNumber :: u8
  bAlternateSetting :: u8

record EndpointDescriptor =
  bEndpointAddress :: u8
  bmAttributes :: u8

definition ENDPOINT_INTERRUPT :: u8 where
  "ENDPOINT_INTERRUPT = 3"

definition ENDPOINT_IN :: u8 where
  "ENDPOINT_IN = 0x80"

definition USBV5_VERSION :: u32 where
  "USBV5_VERSION = 0x50001"

subsection \<open>Transfers and the host device\<close>

text \<open>
  A transfer object is built from the vectored request; for an interrupt message the
  source then assigns its \<^verbatim>\<open>endpoint\<close> member, the second argument of
  \<open>V5IntrMessage\<close>.
\<close>

datatype transfer = V5CtrlMessage IOCtlVRequest | V5IntrMessage IOCtlVRequest u8

text \<open>
  The calls the source makes on host devices are effects outside the program; they are
  recorded in order, each with the \<^verbatim>\<open>host_id\<close> of the device called.
\<close>

datatype host_call =
    Call_Attach nat u8
  | Call_CancelTransfer nat u8
  | Call_SubmitTransfer nat transfer

text \<open>
  \<^verbatim>\<open>USB::Device\<close>, the host device: its descriptor getters, and the code that its
  \<^verbatim>\<open>SubmitTransfer\<close> returns for a transfer.
\<close>

record ('d, 'c, 'i, 'e) Device =
  GetDeviceDescriptor :: 'd
  GetConfigurations :: "'c list"
  GetInterfaces :: "u8 \<Rightarrow> 'i InterfaceDescriptor_scheme list"
  GetEndpoints :: "u8 \<Rightarrow> u8 \<Rightarrow> u8 \<Rightarrow> 'e EndpointDescriptor_scheme list"
  SubmitTransfer_result :: "transfer \<Rightarrow> ReturnCode"

subsection \<open>The registry and the state\<close>

text \<open>
  \<^verbatim>\<open>USBV5Device\<close> is an element of the array \<^verbatim>\<open>m_usbv5_devices\<close>; \<open>slot\<close> is
  its position there, which the source computes as
  \<^verbatim>\<open>&device - m_usbv5_devices.data()\<close> to index \<^verbatim>\<open>m_additional_device_data\<close>.
\<close>

record USBV5Device =
  host_id :: nat
  interface_number :: u8
  slot :: nat

record AdditionalDeviceData =
  interrupt_in_endpoint :: u8
  interrupt_out_endpoint :: u8

record state =
  Memory :: memory
  m_additional_device_data :: "nat \<Rightarrow> AdditionalDeviceData"
  host_calls :: "host_call list"

text \<open>
  A handler returns its reply and the new state, or \<open>None\<close> where the C++ has no
  defined behaviour: a null \<^verbatim>\<open>shared_ptr\<close> dereferenced, or element 0 of an empty
  vector read.
\<close>

type_synonym outcome = "(IPCCommandResult \<times> state) option"

text \<open>
  The collaborators of the source file: the command identifiers (constants of
  namespace \<^verbatim>\<open>USB\<close>), the handlers and helpers inherited from the USBv5 resource
  manager and the USB host, and the byte images of the swapped descriptors.
\<close>

record ('d, 'c, 'i, 'e) env =
  IOCTL_USBV5_GETVERSION :: u32
  IOCTL_USBV5_GETDEVICECHANGE :: u32
  IOCTL_USBV5_SHUTDOWN :: u32
  IOCTL_USBV5_GETDEVPARAMS :: u32
  IOCTL_USBV5_ATTACHFINISH :: u32
  IOCTL_USBV5_SUSPEND_RESUME :: u32
  IOCTL_USBV5_CANCELENDPOINT :: u32
  IOCTLV_USBV5_CTRLMSG :: u32
  IOCTLV_USBV5_INTRMSG :: u32
  GetDeviceChange :: "IOCtlRequest \<Rightarrow> state \<Rightarrow> outcome"
  Shutdown :: "IOCtlRequest \<Rightarrow> state \<Rightarrow> outcome"
  SuspendResume :: "USBV5Device \<Rightarrow> IOCtlRequest \<Rightarrow> state \<Rightarrow> outcome"
  HandleDeviceIOCtl :: "IOCtlRequest \<Rightarrow> (USBV5Device \<Rightarrow> state \<Rightarrow> outcome) \<Rightarrow> state \<Rightarrow> outcome"
  HandleTransfer ::
    "('d, 'c, 'i, 'e) Device option \<Rightarrow> u32 \<Rightarrow> (state \<Rightarrow> (ReturnCode \<times> state) option) \<Rightarrow>
     state \<Rightarrow> outcome"
  GetUSBV5Device :: "u32 \<Rightarrow> state \<Rightarrow> USBV5Device option"
  GetDeviceById :: "nat \<Rightarrow> ('d, 'c, 'i, 'e) Device option"
  DeviceDescriptor_image :: "'d \<Rightarrow> u8 list"
  ConfigDescriptor_image :: "'c \<Rightarrow> u8 list"
  InterfaceDescriptor_image :: "'i InterfaceDescriptor_scheme \<Rightarrow> u8 list"
  EndpointDescriptor_image :: "'e EndpointDescriptor_scheme \<Rightarrow> u8 list"

subsection \<open>The handlers\<close>

text \<open>
  The loop over the endpoints of the matched interface (lines 152 to 170): an
  endpoint whose \<^verbatim>\<open>bmAttributes\<close> is \<^verbatim>\<open>ENDPOINT_INTERRUPT\<close> sets one member of the
  device's \<^verbatim>\<open>AdditionalDeviceData\<close> and is copied to offset 80 or 88.
\<close>

fun endpoints_loop ::
  "('d, 'c, 'i, 'e) env \<Rightarrow> USBV5Device \<Rightarrow> IOCtlRequest \<Rightarrow>
   'e EndpointDescriptor_scheme list \<Rightarrow> state \<Rightarrow> state" where
  "endpoints_loop env device req [] st = st"
| "endpoints_loop env device req (endpoint # endpoints) st =
     endpoints_loop env device req endpoints
       (if bmAttributes endpoint = ENDPOINT_INTERRUPT then
          let is_in_endpoint = (bEndpointAddress endpoint AND ENDPOINT_IN \<noteq> 0);
              data = m_additional_device_data st (slot device);
              data' = (if is_in_endpoint
                       then data\<lparr>interrupt_in_endpoint := bEndpointAddress endpoint\<rparr>
                       else data\<lparr>interrupt_out_endpoint := bEndpointAddress endpoint\<rparr>);
              offset = (if is_in_endpoint then 80 else 88)
          in st\<lparr>Memory := CopyToEmu (buffer_out req + offset)
                             (EndpointDescriptor_image env endpoint) (Memory st),
                m_additional_device_data :=
                  (m_additional_device_data st)(slot device := data')\<rparr>
        else st)"

definition GetDeviceInfo ::
  "('d, 'c, 'i, 'e) env \<Rightarrow> USBV5Device \<Rightarrow> IOCtlRequest \<Rightarrow> state \<Rightarrow> outcome" where
  "GetDeviceInfo env device req st =
     (if buffer_out req = 0 \<or> buffer_out_size req \<noteq> 0x60
      then Some (GetDefaultReply IPC_EINVAL, st)
      else
        let alt_setting = Read_U8 (buffer_in req + 8) (Memory st);
            m1 = Memset (buffer_out req) 0 (buffer_out_size req) (Memory st);
            m2 = Write_U32 (Read_U32 (buffer_in req) m1) (buffer_out req) m1;
            m3 = Write_U32 1 (buffer_out req + 4) m2
        in (case GetDeviceById env (host_id device) of
              None \<Rightarrow> None
            | Some host_device \<Rightarrow>
               (let m4 = CopyToEmu (buffer_out req + 36)
                           (DeviceDescriptor_image env (GetDeviceDescriptor host_device)) m3
                in (case GetConfigurations host_device of
                      [] \<Rightarrow> None
                    | config_descriptor # _ \<Rightarrow>
                       (let m5 = CopyToEmu (buffer_out req + 56)
                                   (ConfigDescriptor_image env config_descriptor) m4;
                            interfaces = GetInterfaces host_device 0
                        in (case find (\<lambda>interface.
                                         bInterfaceNumber interface = interface_number device \<and>
                                         bAlternateSetting interface = alt_setting) interfaces of
                              None \<Rightarrow> Some (GetDefaultReply IPC_EINVAL, st\<lparr>Memory := m5\<rparr>)
                            | Some it \<Rightarrow>
                               (let m6 = CopyToEmu (buffer_out req + 68)
                                           (InterfaceDescriptor_image env it) m5;
                                    endpoints = GetEndpoints host_device 0
                                                  (bInterfaceNumber it) (bAlternateSetting it)
                                in Some (GetDefaultReply IPC_SUCCESS,
                                         endpoints_loop env device req endpoints
                                           (st\<lparr>Memory := m6\<rparr>)))))))))"


text \<open>
  \<^verbatim>\<open>CancelEndpoint\<close> (lines 108 to 118): the endpoint is the 32-bit value at
  offset 8 of the input buffer, cast to \<^verbatim>\<open>u8\<close>.
\<close>

definition CancelEndpoint ::
  "('d, 'c, 'i, 'e) env \<Rightarrow> USBV5Device \<Rightarrow> IOCtlRequest \<Rightarrow> state \<Rightarrow> outcome" where
  "CancelEndpoint env device req st =
     (let endpoint = (ucast (Read_U32 (buffer_in req + 8) (Memory st)) :: u8)
      in (case GetDeviceById env (host_id device) of
            None \<Rightarrow> None
          | Some host_device \<Rightarrow>
              Some (GetDefaultReply IPC_SUCCESS,
                    st\<lparr>host_calls :=
                         host_calls st @ [Call_CancelTransfer (host_id device) endpoint]\<rparr>)))"

text \<open>\<^verbatim>\<open>host_device.SubmitTransfer(message)\<close>: the call is recorded, the host's code returned.\<close>

definition host_SubmitTransfer ::
  "USBV5Device \<Rightarrow> ('d, 'c, 'i, 'e) Device \<Rightarrow> transfer \<Rightarrow> state \<Rightarrow> ReturnCode \<times> state" where
  "host_SubmitTransfer device host_device message st =
     (SubmitTransfer_result host_device message,
      st\<lparr>host_calls := host_calls st @ [Call_SubmitTransfer (host_id device) message]\<rparr>)"

text \<open>\<^verbatim>\<open>SubmitTransfer\<close> (lines 81 to 106).\<close>

definition SubmitTransfer ::
  "('d, 'c, 'i, 'e) env \<Rightarrow> USBV5Device \<Rightarrow> ('d, 'c, 'i, 'e) Device \<Rightarrow> IOCtlVRequest \<Rightarrow>
   state \<Rightarrow> (ReturnCode \<times> state) option" where
  "SubmitTransfer env device host_device ioctlv st =
     (if request_v ioctlv = IOCTLV_USBV5_CTRLMSG env then
        Some (host_SubmitTransfer device host_device (V5CtrlMessage ioctlv) st)
      else if request_v ioctlv = IOCTLV_USBV5_INTRMSG env then
        (case in_vectors ioctlv of
           [] \<Rightarrow> None
         | v0 # _ \<Rightarrow>
            (let data = m_additional_device_data st (slot device);
                 endpoint = (if Read_U32 (address v0 + 8) (Memory st) \<noteq> 0
                             then interrupt_out_endpoint data
                             else interrupt_in_endpoint data)
             in Some (host_SubmitTransfer device host_device
                        (V5IntrMessage ioctlv endpoint) st)))
      else Some (IPC_EINVAL, st))"

text \<open>
  \<^verbatim>\<open>IOCtl\<close> (lines 27 to 52). The \<^verbatim>\<open>switch\<close> is a chain of tests in the order
  of its \<^verbatim>\<open>case\<close> labels, which are distinct in the C++.
\<close>

definition IOCtl :: "('d, 'c, 'i, 'e) env \<Rightarrow> IOCtlRequest \<Rightarrow> state \<Rightarrow> outcome" where
  "IOCtl env req st =
     (if request req = IOCTL_USBV5_GETVERSION env then
        Some (GetDefaultReply IPC_SUCCESS,
              st\<lparr>Memory := Write_U32 USBV5_VERSION (buffer_out req) (Memory st)\<rparr>)
      else if request req = IOCTL_USBV5_GETDEVICECHANGE env then GetDeviceChange env req st
      else if request req = IOCTL_USBV5_SHUTDOWN env then Shutdown env req st
      else if request req = IOCTL_USBV5_GETDEVPARAMS env then
        HandleDeviceIOCtl env req (\<lambda>device. GetDeviceInfo env device req) st
      else if request req = IOCTL_USBV5_ATTACHFINISH env then
        Some (GetDefaultReply IPC_SUCCESS, st)
      else if request req = IOCTL_USBV5_SUSPEND_RESUME env then
        HandleDeviceIOCtl env req (\<lambda>device. SuspendResume env device req) st
      else if request req = IOCTL_USBV5_CANCELENDPOINT env then
        HandleDeviceIOCtl env req (\<lambda>device. CancelEndpoint env device req) st
      else Some (GetDefaultReply IPC_SUCCESS, st))"

text \<open>\<^verbatim>\<open>IOCtlV\<close> (lines 54 to 79). The lock is not modelled: one request runs at a time.\<close>

definition IOCtlV :: "('d, 'c, 'i, 'e) env \<Rightarrow> IOCtlVRequest \<Rightarrow> state \<Rightarrow> outcome" where
  "IOCtlV env req st =
     (if request_v req = IOCTLV_USBV5_CTRLMSG env \<or> request_v req = IOCTLV_USBV5_INTRMSG env
      then
        (if length (in_vectors req) + length (io_vectors req) \<noteq> 2
         then Some (GetDefaultReply IPC_EINVAL, st)
         else
           (case in_vectors req of
              [] \<Rightarrow> None
            | v0 # _ \<Rightarrow>
               (case GetUSBV5Device env (address v0) st of
                  None \<Rightarrow> Some (GetDefaultReply IPC_EINVAL, st)
                | Some device \<Rightarrow>
                   (case GetDeviceById env (host_id device) of
                      None \<Rightarrow> None
                    | Some host_device \<Rightarrow>
                        HandleTransfer env (Some host_device) (request_v req)
                          (SubmitTransfer env device host_device req)
                          (st\<lparr>host_calls :=
                               host_calls st @
                               [Call_Attach (host_id device) (interface_number device)]\<rparr>)))))
      else Some (GetDefaultReply IPC_EINVAL, st))"

subsection \<open>Notions used to state the properties\<close>

text \<open>The identifiers that have a \<^verbatim>\<open>case\<close> label in \<^verbatim>\<open>IOCtl\<close>.\<close>

definition recognized_ioctls :: "('d, 'c, 'i, 'e) env \<Rightarrow> u32 set" where
  "recognized_ioctls env =
     {IOCTL_USBV5_GETVERSION env, IOCTL_USBV5_GETDEVICECHANGE env, IOCTL_USBV5_SHUTDOWN env,
      IOCTL_USBV5_GETDEVPARAMS env, IOCTL_USBV5_ATTACHFINISH env,
      IOCTL_USBV5_SUSPEND_RESUME env, IOCTL_USBV5_CANCELENDPOINT env}"

text \<open>The \<open>n\<close> bytes of guest memory from address \<open>a\<close> on.\<close>

definition read_bytes :: "u32 \<Rightarrow> nat \<Rightarrow> memory \<Rightarrow> u8 list" where
  "read_bytes a n m = map (\<lambda>i. m (a + of_nat i)) [0..<n]"

text \<open>The test by which \<^verbatim>\<open>GetDeviceInfo\<close> selects the interface.\<close>

definition matches ::
  "USBV5Device \<Rightarrow> u8 \<Rightarrow> 'i InterfaceDescriptor_scheme \<Rightarrow> bool" where
  "matches device alt_setting interface \<longleftrightarrow>
     bInterfaceNumber interface = interface_number device \<and>
     bAlternateSetting interface = alt_setting"

text \<open>
  The two tests of the endpoint loop: the interrupt endpoints are those whose
  \<^verbatim>\<open>bmAttributes\<close> is exactly \<^verbatim>\<open>0b11\<close>; bit 7 of the address tells IN from OUT.
\<close>

definition is_interrupt_in :: "'e EndpointDescriptor_scheme \<Rightarrow> bool" where
  "is_interrupt_in e \<longleftrightarrow>
     bmAttributes e = ENDPOINT_INTERRUPT \<and> bEndpointAddress e AND ENDPOINT_IN \<noteq> 0"

definition is_interrupt_out :: "'e EndpointDescriptor_scheme \<Rightarrow> bool" where
  "is_interrupt_out e \<longleftrightarrow>
     bmAttributes e = ENDPOINT_INTERRUPT \<and> bEndpointAddress e AND ENDPOINT_IN = 0"

text \<open>The last element of a list that satisfies a test, if there is one.\<close>

fun last_matching :: "('a \<Rightarrow> bool) \<Rightarrow> 'a list \<Rightarrow> 'a option" where
  "last_matching P [] = None"
| "last_matching P (x # xs) =
     (case last_matching P xs of
        Some y \<Rightarrow> Some y
      | None \<Rightarrow> if P x then Some x else None)"

text \<open>An eight-byte endpoint field of the parameter buffer: a descriptor image, or zeros.\<close>

definition endpoint_field ::
  "('e EndpointDescriptor_scheme \<Rightarrow> u8 list) \<Rightarrow> 'e EndpointDescriptor_scheme option \<Rightarrow> u8 list"
  where
  "endpoint_field img eo = (case eo of None \<Rightarrow> replicate 8 0 | Some e \<Rightarrow> img e)"

subsection \<open>A concrete configuration\<close>

text \<open>
  Modelled from the spec: \<^verbatim>\<open>HandleDeviceIOCtl\<close> belongs to the USBv5 resource
  manager and is not part of the source file. The specification says that it resolves
  the registered device from the guest-supplied handle, answers an invalid handle with
  invalid-argument and otherwise runs the handler on the device.
\<close>

definition HandleDeviceIOCtl_spec ::
  "(u32 \<Rightarrow> state \<Rightarrow> USBV5Device option) \<Rightarrow> IOCtlRequest \<Rightarrow>
   (USBV5Device \<Rightarrow> state \<Rightarrow> outcome) \<Rightarrow> state \<Rightarrow> outcome" where
  "HandleDeviceIOCtl_spec resolve req handler st =
     (case resolve (buffer_in req) st of
        None \<Rightarrow> Some (GetDefaultReply IPC_EINVAL, st)
      | Some device \<Rightarrow> handler device st)"

text \<open>
  Modelled from the spec: \<^verbatim>\<open>HandleTransfer\<close> belongs to the USB host and is not
  part of the source file. The specification says that the dispatcher's return is
  either an immediate submission failure or the indication that the reply is pending.
\<close>

definition HandleTransfer_spec ::
  "('d, 'c, 'i, 'e) Device option \<Rightarrow> u32 \<Rightarrow> (state \<Rightarrow> (ReturnCode \<times> state) option) \<Rightarrow>
   state \<Rightarrow> outcome" where
  "HandleTransfer_spec host_device req submit st =
     (case submit st of
        None \<Rightarrow> None
      | Some (ret, st') \<Rightarrow>
          Some (if ret = IPC_SUCCESS then GetNoReply else GetDefaultReply ret, st'))"

text \<open>
  One host device with three interfaces, each with alternate setting 0 only:
  interface 0 has an interrupt IN endpoint \<open>0x81\<close> and an interrupt OUT endpoint
  \<open>0x02\<close>, interface 1 an interrupt IN endpoint \<open>0x83\<close> and a bulk OUT endpoint
  \<open>0x04\<close>, interface 2 an interrupt OUT endpoint \<open>0x05\<close>. The device and
  configuration descriptors are given by their images; an interface or endpoint
  descriptor has no member besides those the source reads, and its image puts them
  at their place.
\<close>

definition example_host :: "(u8 list, u8 list, unit, unit) Device" where
  "example_host =
     \<lparr>GetDeviceDescriptor =
        [18, 1, 2, 0, 0, 0, 0, 64, 0x05, 0x7E, 0x03, 0x06, 1, 0, 1, 2, 0, 1],
      GetConfigurations = [[9, 2, 0, 34, 1, 1, 0, 0x80, 50, 0]],
      GetInterfaces = (\<lambda>config.
        if config = 0
        then [\<lparr>bInterfaceNumber = 0, bAlternateSetting = 0\<rparr>,
              \<lparr>bInterfaceNumber = 1, bAlternateSetting = 0\<rparr>,
              \<lparr>bInterfaceNumber = 2, bAlternateSetting = 0\<rparr>]
        else []),
      GetEndpoints = (\<lambda>config interface alt.
        if config = 0 \<and> interface = 0 \<and> alt = 0
        then [\<lparr>bEndpointAddress = 0x81, bmAttributes = 3\<rparr>,
              \<lparr>bEndpointAddress = 0x02, bmAttributes = 3\<rparr>]
        else if config = 0 \<and> interface = 1 \<and> alt = 0
        then [\<lparr>bEndpointAddress = 0x83, bmAttributes = 3\<rparr>,
              \<lparr>bEndpointAddress = 0x04, bmAttributes = 2\<rparr>]
        else if config = 0 \<and> interface = 2 \<and> alt = 0
        then [\<lparr>bEndpointAddress = 0x05, bmAttributes = 3\<rparr>]
        else []),
      SubmitTransfer_result = (\<lambda>message. IPC_SUCCESS)\<rparr>"

text \<open>Three registered devices, bound to the interfaces 0, 1 and 2 of that host device.\<close>

definition example_device :: USBV5Device where
  "example_device = \<lparr>host_id = 7, interface_number = 0, slot = 2\<rparr>"

definition example_device_in_only :: USBV5Device where
  "example_device_in_only = \<lparr>host_id = 7, interface_number = 1, slot = 3\<rparr>"

definition example_device_out_only :: USBV5Device where
  "example_device_out_only = \<lparr>host_id = 7, interface_number = 2, slot = 4\<rparr>"

definition example_GetUSBV5Device :: "u32 \<Rightarrow> state \<Rightarrow> USBV5Device option" where
  "example_GetUSBV5Device a st =
     (if Read_U32 a (Memory st) = 0x00020001 then Some example_device else None)"

definition example_env :: "(u8 list, u8 list, unit, unit) env" where
  "example_env =
     \<lparr>IOCTL_USBV5_GETVERSION = 0,
      IOCTL_USBV5_GETDEVICECHANGE = 1,
      IOCTL_USBV5_SHUTDOWN = 2,
      IOCTL_USBV5_GETDEVPARAMS = 3,
      IOCTL_USBV5_ATTACHFINISH = 6,
      IOCTL_USBV5_SUSPEND_RESUME = 16,
      IOCTL_USBV5_CANCELENDPOINT = 17,
      IOCTLV_USBV5_CTRLMSG = 18,
      IOCTLV_USBV5_INTRMSG = 19,
      GetDeviceChange = (\<lambda>req st. Some (GetNoReply, st)),
      Shutdown = (\<lambda>req st. Some (GetDefaultReply IPC_SUCCESS, st)),
      SuspendResume = (\<lambda>device req st. Some (GetDefaultReply IPC_SUCCESS, st)),
      HandleDeviceIOCtl = HandleDeviceIOCtl_spec example_GetUSBV5Device,
      HandleTransfer = HandleTransfer_spec,
      GetUSBV5Device = example_GetUSBV5Device,
      GetDeviceById = (\<lambda>h. if h = 7 then Some example_host else None),
      DeviceDescriptor_image = (\<lambda>d. d),
      ConfigDescriptor_image = (\<lambda>c. c),
      InterfaceDescriptor_image =
        (\<lambda>i. [9, 4, bInterfaceNumber i, bAlternateSetting i, 2, 3, 0, 0, 0]),
      EndpointDescriptor_image =
        (\<lambda>e. [7, 5, bEndpointAddress e, bmAttributes e, 0, 8, 10, 0])\<rparr>"

text \<open>
  Guest memory holds \<open>0xFF\<close> everywhere but in two places: at \<open>0x1000\<close> the handle
  \<open>0x00020001\<close>, a zero word and the word \<open>0x00000102\<close> (whose first byte is the
  alternate setting 0, and which is a non-zero direction selector and the endpoint
  selector \<open>0x02\<close>); at \<open>0x3000\<close> the same handle followed by zeros.
\<close>

definition example_memory :: memory where
  "example_memory =
     CopyToEmu 0x3000 [0, 2, 0, 1, 0, 0, 0, 0, 0, 0, 0, 0]
       (CopyToEmu 0x1000 [0, 2, 0, 1, 0, 0, 0, 0, 0, 0, 1, 2] (\<lambda>x. 0xFF))"

definition example_state :: state where
  "example_state =
     \<lparr>Memory = example_memory,
      m_additional_device_data =
        (\<lambda>s. \<lparr>interrupt_in_endpoint = 0, interrupt_out_endpoint = 0\<rparr>),
      host_calls = []\<rparr>"

text \<open>The same state with an endpoint table that earlier queries have filled.\<close>

definition example_state_resolved :: state where
  "example_state_resolved =
     example_state\<lparr>m_additional_device_data :=
       (\<lambda>s. \<lparr>interrupt_in_endpoint = 0x86, interrupt_out_endpoint = 0x07\<rparr>)\<rparr>"

text \<open>The state that the parameter query for the first device leaves behind.\<close>

definition example_queried :: state where
  "example_queried =
     snd (the (GetDeviceInfo example_env example_device
       \<lparr>request = 3, buffer_in = 0x1000, buffer_in_size = 0x20,
        buffer_out = 0x2000, buffer_out_size = 0x60\<rparr> example_state))"

definition example_request :: "u32 \<Rightarrow> u32 \<Rightarrow> u32 \<Rightarrow> u32 \<Rightarrow> IOCtlRequest" where
  "example_request r a_in a_out n_out =
     \<lparr>request = r, buffer_in = a_in, buffer_in_size = 0x20,
      buffer_out = a_out, buffer_out_size = n_out\<rparr>"

definition example_ioctlv :: "u32 \<Rightarrow> u32 \<Rightarrow> nat \<Rightarrow> IOCtlVRequest" where
  "example_ioctlv r a n =
     \<lparr>request_v = r,
      in_vectors = [\<lparr>address = a, size_iov = 0x20\<rparr>],
      io_vectors = replicate n \<lparr>address = 0x4000, size_iov = 8\<rparr>\<rparr>"

section \<open>Properties\<close>

subsection \<open>Guest memory, byte by byte\<close>

lemma addr_offset_eq:
  "i < 2 ^ 32 \<Longrightarrow> k < 2 ^ 32 \<Longrightarrow> (a + of_nat k :: u32) = a + of_nat i \<longleftrightarrow> k = i"
  by (simp add: word_of_nat_eq_iff take_bit_nat_eq_self)

lemma unat_u32_less: "unat (w :: u32) < 2 ^ 32"
  using unsigned_less [of w] by simp

text \<open>
  A copy of at most \<open>2 ^ 32\<close> bytes to offset \<open>k\<close> of a base address, read at
  offset \<open>i\<close> of the same base.
\<close>

lemma CopyToEmu_offset:
  "k + length bs \<le> 2 ^ 32 \<Longrightarrow> i < 2 ^ 32 \<Longrightarrow>
   CopyToEmu (a + of_nat k) bs m (a + of_nat i) =
     (if k \<le> i \<and> i < k + length bs then bs ! (i - k) else m (a + of_nat i))"
proof (induction bs arbitrary: k m)
  case Nil
  then show ?case by auto
next
  case (Cons b bs)
  have k: "k < 2 ^ 32" and k': "Suc k + length bs \<le> 2 ^ 32"
    using Cons.prems(1) by simp_all
  have step: "a + of_nat k + 1 = a + of_nat (Suc k)" by simp
  have "CopyToEmu (a + of_nat k) (b # bs) m (a + of_nat i) =
        CopyToEmu (a + of_nat (Suc k)) bs (m(a + of_nat k := b)) (a + of_nat i)"
    by (simp only: CopyToEmu.simps step)
  also have "\<dots> = (if Suc k \<le> i \<and> i < Suc k + length bs then bs ! (i - Suc k)
                    else (m(a + of_nat k := b)) (a + of_nat i))"
    using k' Cons.prems(2) by (rule Cons.IH)
  also have "\<dots> = (if k \<le> i \<and> i < k + length (b # bs) then (b # bs) ! (i - k)
                    else m (a + of_nat i))"
  proof (cases "i = k")
    case True
    then show ?thesis by simp
  next
    case False
    then have ne: "a + of_nat k \<noteq> a + of_nat i"
      using addr_offset_eq [OF Cons.prems(2) k, of a] by simp
    have "(b # bs) ! (i - k) = bs ! (i - Suc k)" if "k \<le> i"
      using that False by (simp add: nth_Cons')
    with False ne show ?thesis
      by (simp only: fun_upd_apply length_Cons) auto
  qed
  finally show ?case .
qed

lemma CopyToEmu_apply:
  assumes "length bs \<le> 2 ^ 32"
  shows "CopyToEmu a bs m x =
           (if unat (x - a) < length bs then bs ! unat (x - a) else m x)"
proof -
  have "CopyToEmu (a + of_nat 0) bs m (a + of_nat (unat (x - a))) =
          (if 0 \<le> unat (x - a) \<and> unat (x - a) < 0 + length bs
           then bs ! (unat (x - a) - 0) else m (a + of_nat (unat (x - a))))"
    using assms unat_u32_less by (intro CopyToEmu_offset) simp_all
  then show ?thesis by simp
qed

lemma Write_U32_apply:
  "Write_U32 v a m x = (if x - a < 4 then be32 v ! unat (x - a) else m x)"
proof -
  have "length (be32 v) \<le> 2 ^ 32" by (simp add: be32_def)
  then show ?thesis
    unfolding Write_U32_def
    by (simp add: CopyToEmu_apply word_less_nat_alt) (simp add: be32_def)
qed

lemma Read_U32_Write_U32: "Read_U32 a (Write_U32 v a m) = v"
proof -
  have "bit (Read_U32 a (CopyToEmu a (be32 v) m)) n = bit v n" for n
  proof (cases "n < 32")
    case False
    then show ?thesis by (auto dest: bit_imp_le_length)
  next
    case True
    consider "n < 8" | "8 \<le> n" "n < 16" | "16 \<le> n" "n < 24" | "24 \<le> n" "n < 32"
      using True by linarith
    then show ?thesis
      by cases (auto simp add: Read_U32_def be32_def bit_simps)
  qed
  then show ?thesis unfolding Write_U32_def by (rule bit_word_eqI)
qed

text \<open>The cast to \<^verbatim>\<open>u8\<close> keeps the last of the four big-endian bytes.\<close>

lemma ucast_Read_U32: "(ucast (Read_U32 a m) :: u8) = m (a + 3)"
  unfolding Read_U32_def by (rule bit_word_eqI) (auto simp add: bit_simps)

subsection \<open>The dispatchers\<close>

lemma IOCtl_default:
  "request req \<notin> recognized_ioctls env \<Longrightarrow>
   IOCtl env req st = Some (GetDefaultReply IPC_SUCCESS, st)"
  by (simp add: IOCtl_def recognized_ioctls_def)

text \<open>
  C6. A discrete command whose identifier has no \<^verbatim>\<open>case\<close> label in \<^verbatim>\<open>IOCtl\<close>
  is answered with success, and the state, guest memory included, is the one before
  the call: nothing was written.
\<close>

theorem unknown_ioctl_succeeds:
  assumes "request req \<notin> recognized_ioctls env"
  shows "IOCtl env req st = Some (GetDefaultReply IPC_SUCCESS, st)"
  using assms by (rule IOCtl_default)

theorem unknown_ioctl_succeeds_witness:
  "request (example_request 99 0x1000 0x2000 0x60) \<notin> recognized_ioctls example_env \<and>
   IOCtl example_env (example_request 99 0x1000 0x2000 0x60) example_state =
     Some (GetDefaultReply IPC_SUCCESS, example_state)"
proof -
  have h: "request (example_request 99 0x1000 0x2000 0x60) \<notin> recognized_ioctls example_env"
    by (simp add: example_request_def recognized_ioctls_def example_env_def)
  show ?thesis
    using h unknown_ioctl_succeeds [OF h, of example_state] by simp
qed

text \<open>
  C8. A \<^verbatim>\<open>GET_VERSION\<close> request is answered with success in every state; afterwards
  the 32-bit value at the output address is \<open>0x50001\<close>, every byte of guest memory
  outside those four is as before, and nothing else of the state has changed.
\<close>

theorem get_version_writes_constant:
  assumes "request req = IOCTL_USBV5_GETVERSION env"
  shows "\<exists>st'. IOCtl env req st = Some (GetDefaultReply IPC_SUCCESS, st') \<and>
           Read_U32 (buffer_out req) (Memory st') = 0x50001 \<and>
           (\<forall>x. 4 \<le> x - buffer_out req \<longrightarrow> Memory st' x = Memory st x) \<and>
           m_additional_device_data st' = m_additional_device_data st \<and>
           host_calls st' = host_calls st"
  using assms
  by (simp add: IOCtl_def Read_U32_Write_U32 USBV5_VERSION_def Write_U32_apply
      not_less [symmetric])

theorem get_version_writes_constant_witness:
  "request (example_request 0 0x1000 0x2000 4) = IOCTL_USBV5_GETVERSION example_env \<and>
   (\<exists>st'. IOCtl example_env (example_request 0 0x1000 0x2000 4) example_state =
            Some (GetDefaultReply IPC_SUCCESS, st') \<and>
          Read_U32 (buffer_out (example_request 0 0x1000 0x2000 4)) (Memory st') = 0x50001 \<and>
          (\<forall>x. 4 \<le> x - buffer_out (example_request 0 0x1000 0x2000 4) \<longrightarrow>
               Memory st' x = Memory example_state x) \<and>
          m_additional_device_data st' = m_additional_device_data example_state \<and>
          host_calls st' = host_calls example_state)"
proof -
  have h: "request (example_request 0 0x1000 0x2000 4) = IOCTL_USBV5_GETVERSION example_env"
    by (simp add: example_request_def example_env_def)
  show ?thesis
    using h get_version_writes_constant [OF h, of example_state] by simp
qed

text \<open>
  C2. A control-message or interrupt-message request whose input and output vectors
  are not two in all is answered with invalid-argument at once. The state is the one
  before the call, so no host device was attached or called and the endpoint table
  was not written; and the outcome is the same whatever the registry lookup, the host
  device lookup and the transfer helper are, so none of them had a part in it.
\<close>

theorem bad_vector_count_rejected:
  assumes "request_v req = IOCTLV_USBV5_CTRLMSG env \<or> request_v req = IOCTLV_USBV5_INTRMSG env"
    and "length (in_vectors req) + length (io_vectors req) \<noteq> 2"
  shows "IOCtlV env req st = Some (GetDefaultReply IPC_EINVAL, st) \<and>
         IOCtlV (env\<lparr>GetUSBV5Device := resolve, GetDeviceById := by_id,
                     HandleTransfer := handle\<rparr>) req st =
           Some (GetDefaultReply IPC_EINVAL, st)"
  using assms by (auto simp add: IOCtlV_def)

theorem bad_vector_count_rejected_witness:
  "(request_v (example_ioctlv 19 0x1000 2) = IOCTLV_USBV5_CTRLMSG example_env \<or>
    request_v (example_ioctlv 19 0x1000 2) = IOCTLV_USBV5_INTRMSG example_env) \<and>
   length (in_vectors (example_ioctlv 19 0x1000 2)) +
     length (io_vectors (example_ioctlv 19 0x1000 2)) \<noteq> 2 \<and>
   IOCtlV example_env (example_ioctlv 19 0x1000 2) example_state =
     Some (GetDefaultReply IPC_EINVAL, example_state)"
proof -
  have h1: "request_v (example_ioctlv 19 0x1000 2) = IOCTLV_USBV5_CTRLMSG example_env \<or>
            request_v (example_ioctlv 19 0x1000 2) = IOCTLV_USBV5_INTRMSG example_env"
    by (simp add: example_ioctlv_def example_env_def)
  have h2: "length (in_vectors (example_ioctlv 19 0x1000 2)) +
              length (io_vectors (example_ioctlv 19 0x1000 2)) \<noteq> 2"
    by (simp add: example_ioctlv_def)
  show ?thesis
    using h1 h2 bad_vector_count_rejected [OF h1 h2, of example_state] by simp
qed

text \<open>
  C9. A vectored request that is neither the control-message nor the
  interrupt-message command is answered with invalid-argument and changes nothing,
  whereas a discrete command without a \<^verbatim>\<open>case\<close> label is answered with success.
\<close>

theorem unknown_ioctlv_rejected:
  assumes "request_v req \<noteq> IOCTLV_USBV5_CTRLMSG env"
    and "request_v req \<noteq> IOCTLV_USBV5_INTRMSG env"
  shows "IOCtlV env req st = Some (GetDefaultReply IPC_EINVAL, st) \<and>
         (\<forall>req' st'. request req' \<notin> recognized_ioctls env \<longrightarrow>
            IOCtl env req' st' = Some (GetDefaultReply IPC_SUCCESS, st'))"
  using assms by (simp add: IOCtlV_def IOCtl_default)

theorem unknown_ioctlv_rejected_witness:
  "request_v (example_ioctlv 21 0x1000 1) \<noteq> IOCTLV_USBV5_CTRLMSG example_env \<and>
   request_v (example_ioctlv 21 0x1000 1) \<noteq> IOCTLV_USBV5_INTRMSG example_env \<and>
   IOCtlV example_env (example_ioctlv 21 0x1000 1) example_state =
     Some (GetDefaultReply IPC_EINVAL, example_state) \<and>
   request (example_request 21 0x1000 0x2000 0x60) \<notin> recognized_ioctls example_env \<and>
   IOCtl example_env (example_request 21 0x1000 0x2000 0x60) example_state =
     Some (GetDefaultReply IPC_SUCCESS, example_state)"
proof -
  have h1: "request_v (example_ioctlv 21 0x1000 1) \<noteq> IOCTLV_USBV5_CTRLMSG example_env"
    and h2: "request_v (example_ioctlv 21 0x1000 1) \<noteq> IOCTLV_USBV5_INTRMSG example_env"
    by (simp_all add: example_ioctlv_def example_env_def)
  have h3: "request (example_request 21 0x1000 0x2000 0x60) \<notin> recognized_ioctls example_env"
    by (simp add: example_request_def recognized_ioctls_def example_env_def)
  show ?thesis
    using h1 h2 h3 unknown_ioctlv_rejected [OF h1 h2, of example_state] by simp
qed

subsection \<open>Endpoint cancellation\<close>

text \<open>
  C7. On a device whose host device is found, \<^verbatim>\<open>CancelEndpoint\<close> calls the host
  device's \<^verbatim>\<open>CancelTransfer\<close> once, with the 32-bit value at offset 8 of the input
  buffer cast to one byte (the byte at offset 11), and answers success, in every
  state and so whatever transfers were submitted before. Without a host device the
  C++ dereferences a null pointer.
\<close>

theorem cancel_endpoint_succeeds:
  assumes "GetDeviceById env (host_id device) = Some host_device"
  shows "CancelEndpoint env device req st =
           Some (GetDefaultReply IPC_SUCCESS,
                 st\<lparr>host_calls := host_calls st @
                      [Call_CancelTransfer (host_id device)
                         (ucast (Read_U32 (buffer_in req + 8) (Memory st)))]\<rparr>) \<and>
         (ucast (Read_U32 (buffer_in req + 8) (Memory st)) :: u8) =
           Memory st (buffer_in req + 11)"
  using assms by (simp add: CancelEndpoint_def ucast_Read_U32 add.commute)

theorem cancel_endpoint_succeeds_witness:
  "GetDeviceById example_env (host_id example_device) = Some example_host \<and>
   CancelEndpoint example_env example_device (example_request 17 0x1000 0 0) example_state =
     Some (GetDefaultReply IPC_SUCCESS,
           example_state\<lparr>host_calls := [Call_CancelTransfer 7 2]\<rparr>)"
proof -
  have h: "GetDeviceById example_env (host_id example_device) = Some example_host"
    by (simp add: example_env_def example_device_def)
  have "Memory example_state (buffer_in (example_request 17 0x1000 0 0) + 11) = 2"
    by (simp add: example_state_def example_memory_def example_request_def)
  then show ?thesis
    using h cancel_endpoint_succeeds [OF h, of "example_request 17 0x1000 0 0" example_state]
    by (simp add: example_device_def example_state_def)
qed

subsection \<open>The parameter buffer, byte by byte\<close>

lemma matches_eq:
  "(\<lambda>interface. bInterfaceNumber interface = interface_number device \<and>
                  bAlternateSetting interface = a) = matches device a"
  by (rule ext) (simp add: matches_def)

lemma CopyToEmu_at:
  assumes "w = of_nat k" and "k + length bs \<le> 2 ^ 32" and "i < 2 ^ 32"
  shows "CopyToEmu (a + w) bs m (a + of_nat i) =
           (if k \<le> i \<and> i < k + length bs then bs ! (i - k) else m (a + of_nat i))"
  using assms(2,3) unfolding assms(1) by (rule CopyToEmu_offset)

lemma Memset_offset:
  "i < 2 ^ 32 \<Longrightarrow>
   Memset a v 0x60 m (a + of_nat i) = (if i < 96 then v else m (a + of_nat i))"
  by (simp add: Memset_def word_less_nat_alt unat_of_nat take_bit_nat_eq_self)

lemma Write_U32_at:
  assumes "w = of_nat k" and "k + 4 \<le> 2 ^ 32" and "i < 2 ^ 32"
  shows "Write_U32 v (a + w) m (a + of_nat i) =
           (if k \<le> i \<and> i < k + 4 then be32 v ! (i - k) else m (a + of_nat i))"
proof -
  have "length (be32 v) = 4" by (simp add: be32_def)
  with assms show ?thesis
    unfolding Write_U32_def by (simp add: CopyToEmu_at)
qed

text \<open>The memory after the header writes.\<close>

lemma header_at:
  assumes "i < 2 ^ 32"
  shows "Write_U32 1 (a + 4) (Write_U32 h a (Memset a 0 0x60 m)) (a + of_nat i) =
           (if i < 4 then be32 h ! i
            else if i < 8 then be32 1 ! (i - 4)
            else if i < 96 then 0
            else m (a + of_nat i))"
proof -
  have "Write_U32 h a (Memset a 0 0x60 m) (a + of_nat i) =
          (if i < 4 then be32 h ! i else Memset a 0 0x60 m (a + of_nat i))"
    using Write_U32_at [of 0 0 i h a "Memset a 0 0x60 m"] assms by simp
  then show ?thesis
    using assms by (simp add: Write_U32_at [of 4 4] Memset_offset)
qed


text \<open>The memory after the device and configuration descriptors were copied.\<close>

lemma descriptors_at:
  assumes "i < 2 ^ 32" and "length dev = 18" and "length cfg = 10"
  shows "CopyToEmu (a + 56) cfg (CopyToEmu (a + 36) dev
            (Write_U32 1 (a + 4) (Write_U32 h a (Memset a 0 0x60 m)))) (a + of_nat i) =
           (if i < 4 then be32 h ! i
            else if i < 8 then be32 1 ! (i - 4)
            else if 36 \<le> i \<and> i < 54 then dev ! (i - 36)
            else if 56 \<le> i \<and> i < 66 then cfg ! (i - 56)
            else if i < 96 then 0
            else m (a + of_nat i))"
  using assms
  by (simp add: CopyToEmu_at [of 56 56] CopyToEmu_at [of 36 36] header_at)

lemma interface_at:
  assumes "i < 2 ^ 32" and "length dev = 18" and "length cfg = 10" and "length ifc = 9"
  shows "CopyToEmu (a + 68) ifc (CopyToEmu (a + 56) cfg (CopyToEmu (a + 36) dev
            (Write_U32 1 (a + 4) (Write_U32 h a (Memset a 0 0x60 m))))) (a + of_nat i) =
           (if i < 4 then be32 h ! i
            else if i < 8 then be32 1 ! (i - 4)
            else if 36 \<le> i \<and> i < 54 then dev ! (i - 36)
            else if 56 \<le> i \<and> i < 66 then cfg ! (i - 56)
            else if 68 \<le> i \<and> i < 77 then ifc ! (i - 68)
            else if i < 96 then 0
            else m (a + of_nat i))"
  using assms
  by (simp add: CopyToEmu_at [of 68 68] descriptors_at)

subsection \<open>The endpoint loop\<close>

lemma endpoints_loop_Cons:
  "endpoints_loop env device req (e # es) st =
   endpoints_loop env device req es (endpoints_loop env device req [e] st)"
  by simp

lemma endpoints_loop_in:
  "is_interrupt_in e \<Longrightarrow>
   endpoints_loop env device req [e] st =
     st\<lparr>Memory := CopyToEmu (buffer_out req + 80) (EndpointDescriptor_image env e) (Memory st),
        m_additional_device_data := (m_additional_device_data st)(slot device :=
          (m_additional_device_data st (slot device))
            \<lparr>interrupt_in_endpoint := bEndpointAddress e\<rparr>)\<rparr>"
  by (simp add: is_interrupt_in_def Let_def)

lemma endpoints_loop_out:
  "is_interrupt_out e \<Longrightarrow>
   endpoints_loop env device req [e] st =
     st\<lparr>Memory := CopyToEmu (buffer_out req + 88) (EndpointDescriptor_image env e) (Memory st),
        m_additional_device_data := (m_additional_device_data st)(slot device :=
          (m_additional_device_data st (slot device))
            \<lparr>interrupt_out_endpoint := bEndpointAddress e\<rparr>)\<rparr>"
  by (simp add: is_interrupt_out_def Let_def)

lemma endpoints_loop_other:
  "\<not> is_interrupt_in e \<Longrightarrow> \<not> is_interrupt_out e \<Longrightarrow>
   endpoints_loop env device req [e] st = st"
  by (auto simp add: is_interrupt_in_def is_interrupt_out_def)

lemma not_in_and_out: "is_interrupt_in e \<Longrightarrow> \<not> is_interrupt_out e"
  by (simp add: is_interrupt_in_def is_interrupt_out_def)

lemma endpoint_cases:
  obtains (In) "is_interrupt_in e" "\<not> is_interrupt_out e"
  | (Out) "is_interrupt_out e" "\<not> is_interrupt_in e"
  | (Other) "\<not> is_interrupt_in e" "\<not> is_interrupt_out e"
  by (auto simp add: is_interrupt_in_def is_interrupt_out_def)

lemma endpoints_loop_host_calls:
  "host_calls (endpoints_loop env device req es st) = host_calls st"
  by (induction es arbitrary: st) (simp_all add: Let_def)

lemma endpoints_loop_other_slot:
  "s \<noteq> slot device \<Longrightarrow>
   m_additional_device_data (endpoints_loop env device req es st) s =
   m_additional_device_data st s"
  by (induction es arbitrary: st) (simp_all add: Let_def)

lemma endpoints_loop_in_endpoint:
  "interrupt_in_endpoint (m_additional_device_data (endpoints_loop env device req es st)
     (slot device)) =
   (case last_matching is_interrupt_in es of
      None \<Rightarrow> interrupt_in_endpoint (m_additional_device_data st (slot device))
    | Some e \<Rightarrow> bEndpointAddress e)"
proof (induction es arbitrary: st)
  case Nil
  then show ?case by simp
next
  case (Cons e es)
  show ?case
    unfolding endpoints_loop_Cons [of _ _ _ e es] Cons.IH
    by (cases e rule: endpoint_cases)
      (simp_all add: endpoints_loop_in endpoints_loop_out endpoints_loop_other
        del: endpoints_loop.simps split: option.split)
qed

lemma endpoints_loop_out_endpoint:
  "interrupt_out_endpoint (m_additional_device_data (endpoints_loop env device req es st)
     (slot device)) =
   (case last_matching is_interrupt_out es of
      None \<Rightarrow> interrupt_out_endpoint (m_additional_device_data st (slot device))
    | Some e \<Rightarrow> bEndpointAddress e)"
proof (induction es arbitrary: st)
  case Nil
  then show ?case by simp
next
  case (Cons e es)
  show ?case
    unfolding endpoints_loop_Cons [of _ _ _ e es] Cons.IH
    by (cases e rule: endpoint_cases)
      (simp_all add: endpoints_loop_in endpoints_loop_out endpoints_loop_other
        del: endpoints_loop.simps split: option.split)
qed

lemma endpoints_loop_Memory:
  assumes "i < 2 ^ 32" and "\<forall>e \<in> set es. length (EndpointDescriptor_image env e) = 8"
  shows "Memory (endpoints_loop env device req es st) (buffer_out req + of_nat i) =
           (if 80 \<le> i \<and> i < 88 then
              (case last_matching is_interrupt_in es of
                 None \<Rightarrow> Memory st (buffer_out req + of_nat i)
               | Some e \<Rightarrow> EndpointDescriptor_image env e ! (i - 80))
            else if 88 \<le> i \<and> i < 96 then
              (case last_matching is_interrupt_out es of
                 None \<Rightarrow> Memory st (buffer_out req + of_nat i)
               | Some e \<Rightarrow> EndpointDescriptor_image env e ! (i - 88))
            else Memory st (buffer_out req + of_nat i))"
  using assms(2)
proof (induction es arbitrary: st)
  case Nil
  then show ?case by simp
next
  case (Cons e es)
  have len: "length (EndpointDescriptor_image env e) = 8"
    and rest: "\<forall>e \<in> set es. length (EndpointDescriptor_image env e) = 8"
    using Cons.prems by simp_all
  show ?case
    unfolding endpoints_loop_Cons [of _ _ _ e es] Cons.IH [OF rest]
    using assms(1) len
    by (cases e rule: endpoint_cases)
      (simp_all add: endpoints_loop_in endpoints_loop_out endpoints_loop_other
        CopyToEmu_at [of 80 80] CopyToEmu_at [of 88 88]
        del: endpoints_loop.simps split: option.split)
qed

subsection \<open>What GetDeviceInfo computes\<close>

lemma read_bytes_eqI:
  "length bs = n \<Longrightarrow> (\<And>i. i < n \<Longrightarrow> m (a + of_nat i) = bs ! i) \<Longrightarrow> read_bytes a n m = bs"
  by (auto simp add: read_bytes_def intro: nth_equalityI)

lemma outside_buffer:
  assumes "\<And>i. i < 2 ^ 32 \<Longrightarrow> 96 \<le> i \<Longrightarrow> m' (a + of_nat i) = m (a + of_nat i)"
  shows "\<forall>x. 0x60 \<le> x - (a :: u32) \<longrightarrow> m' x = (m x :: u8)"
proof (intro allI impI)
  fix x :: u32
  assume "0x60 \<le> x - a"
  then have "96 \<le> unat (x - a)" by (simp add: word_le_nat_alt)
  with assms [OF unat_u32_less, of "x - a"] show "m' x = m x" by simp
qed

lemma Read_U32_Memset_outside:
  assumes "\<forall>j \<in> {0, 1, 2, 3}. n \<le> a + j - b"
  shows "Read_U32 a (Memset b v n m) = Read_U32 a m"
  using assms by (simp add: Read_U32_def Memset_def not_less [symmetric])

lemma layout_nth:
  assumes len: "length hb = 4" "length ob = 4" "length dev = 18" "length cfg = 10"
    "length ifc = 9" "length fin = 8" and i: "i < 96"
  shows "(hb @ ob @ replicate 28 0 @ dev @ replicate 2 0 @ cfg @ replicate 2 0 @ ifc @
           replicate 3 0 @ fin @ fout) ! i =
         (if i < 4 then hb ! i
          else if i < 8 then ob ! (i - 4)
          else if i < 36 then 0
          else if i < 54 then dev ! (i - 36)
          else if i < 56 then 0
          else if i < 66 then cfg ! (i - 56)
          else if i < 68 then 0
          else if i < 77 then ifc ! (i - 68)
          else if i < 80 then 0
          else if i < 88 then fin ! (i - 80)
          else fout ! (i - 88))"
proof -
  consider "i < 4" | "4 \<le> i" "i < 8" | "8 \<le> i" "i < 36" | "36 \<le> i" "i < 54"
    | "54 \<le> i" "i < 56" | "56 \<le> i" "i < 66" | "66 \<le> i" "i < 68" | "68 \<le> i" "i < 77"
    | "77 \<le> i" "i < 80" | "80 \<le> i" "i < 88" | "88 \<le> i"
    by linarith
  then show ?thesis
    by cases (auto simp add: nth_append len)
qed

lemma GetDeviceInfo_found:
  assumes "buffer_out req \<noteq> 0" and "buffer_out_size req = 0x60"
    and "GetDeviceById env (host_id device) = Some host_device"
    and "GetConfigurations host_device = config # configs"
    and "find (matches device (Read_U8 (buffer_in req + 8) (Memory st)))
           (GetInterfaces host_device 0) = Some it"
  shows "GetDeviceInfo env device req st =
           Some (GetDefaultReply IPC_SUCCESS,
             endpoints_loop env device req
               (GetEndpoints host_device 0 (bInterfaceNumber it) (bAlternateSetting it))
               (st\<lparr>Memory :=
                  CopyToEmu (buffer_out req + 68) (InterfaceDescriptor_image env it)
                    (CopyToEmu (buffer_out req + 56) (ConfigDescriptor_image env config)
                      (CopyToEmu (buffer_out req + 36)
                         (DeviceDescriptor_image env (GetDeviceDescriptor host_device))
                         (Write_U32 1 (buffer_out req + 4)
                            (Write_U32
                               (Read_U32 (buffer_in req)
                                  (Memset (buffer_out req) 0 0x60 (Memory st)))
                               (buffer_out req)
                               (Memset (buffer_out req) 0 0x60 (Memory st))))))\<rparr>))"
  using assms by (simp add: GetDeviceInfo_def matches_eq Let_def)

lemma GetDeviceInfo_not_found:
  assumes "buffer_out req \<noteq> 0" and "buffer_out_size req = 0x60"
    and "GetDeviceById env (host_id device) = Some host_device"
    and "GetConfigurations host_device = config # configs"
    and "find (matches device (Read_U8 (buffer_in req + 8) (Memory st)))
           (GetInterfaces host_device 0) = None"
  shows "GetDeviceInfo env device req st =
           Some (GetDefaultReply IPC_EINVAL,
             st\<lparr>Memory :=
                  CopyToEmu (buffer_out req + 56) (ConfigDescriptor_image env config)
                    (CopyToEmu (buffer_out req + 36)
                       (DeviceDescriptor_image env (GetDeviceDescriptor host_device))
                       (Write_U32 1 (buffer_out req + 4)
                          (Write_U32
                             (Read_U32 (buffer_in req)
                                (Memset (buffer_out req) 0 0x60 (Memory st)))
                             (buffer_out req)
                             (Memset (buffer_out req) 0 0x60 (Memory st)))))\<rparr>)"
  using assms by (simp add: GetDeviceInfo_def matches_eq Let_def)

lemma GetDeviceInfo_success_buffer:
  assumes "GetDeviceInfo env device req st = Some (GetDefaultReply IPC_SUCCESS, st')"
  shows "buffer_out req \<noteq> 0 \<and> buffer_out_size req = 0x60"
  using assms by (auto simp add: GetDeviceInfo_def split: if_splits)

lemma GetDeviceInfo_success_names:
  assumes "GetDeviceInfo env device req st = Some (GetDefaultReply IPC_SUCCESS, st')"
  shows "\<exists>host_device config configs it.
           GetDeviceById env (host_id device) = Some host_device \<and>
           GetConfigurations host_device = config # configs \<and>
           find (matches device (Read_U8 (buffer_in req + 8) (Memory st)))
             (GetInterfaces host_device 0) = Some it"
  using assms
  by (auto simp add: GetDeviceInfo_def matches_eq Let_def
      split: if_splits option.splits list.splits)

lemma last_matching_Some:
  "last_matching P xs = Some x \<Longrightarrow> x \<in> set xs \<and> P x"
  by (induction xs) (auto split: option.splits if_splits)

lemma last_matching_None:
  "last_matching P xs = None \<longleftrightarrow> (\<forall>x \<in> set xs. \<not> P x)"
  by (induction xs) (auto split: option.splits)

lemma length_endpoint_field:
  assumes "\<forall>e \<in> set es. length (img e) = 8"
  shows "length (endpoint_field img (last_matching P es)) = 8"
  using assms last_matching_Some [of P es]
  by (cases "last_matching P es") (auto simp add: endpoint_field_def)

lemma endpoint_field_nth:
  "j < 8 \<Longrightarrow>
   endpoint_field img eo ! j = (case eo of None \<Rightarrow> 0 | Some e \<Rightarrow> img e ! j)"
  by (simp add: endpoint_field_def split: option.split)

lemma params_at:
  assumes i: "i < 2 ^ 32"
    and len: "length dev = 18" "length cfg = 10" "length ifc = 9"
    and eps: "\<forall>e \<in> set es. length (EndpointDescriptor_image env e) = 8"
  shows "Memory (endpoints_loop env device req es
           (st\<lparr>Memory := CopyToEmu (buffer_out req + 68) ifc
                  (CopyToEmu (buffer_out req + 56) cfg
                    (CopyToEmu (buffer_out req + 36) dev
                      (Write_U32 1 (buffer_out req + 4)
                        (Write_U32 h (buffer_out req)
                          (Memset (buffer_out req) 0 0x60 (Memory st))))))\<rparr>))
           (buffer_out req + of_nat i) =
         (if i < 96
          then (be32 h @ be32 1 @ replicate 28 0 @ dev @ replicate 2 0 @ cfg @ replicate 2 0 @
                ifc @ replicate 3 0 @
                endpoint_field (EndpointDescriptor_image env) (last_matching is_interrupt_in es) @
                endpoint_field (EndpointDescriptor_image env) (last_matching is_interrupt_out es))
               ! i
          else Memory st (buffer_out req + of_nat i))"
proof -
  have hb: "length (be32 h) = 4" "length (be32 1) = 4"
    by (simp_all add: be32_def)
  have fin: "length (endpoint_field (EndpointDescriptor_image env)
               (last_matching is_interrupt_in es)) = 8"
    using eps by (rule length_endpoint_field)
  note nth = layout_nth [OF hb len fin]
  consider "i < 4" | "4 \<le> i" "i < 8" | "8 \<le> i" "i < 36" | "36 \<le> i" "i < 54"
    | "54 \<le> i" "i < 56" | "56 \<le> i" "i < 66" | "66 \<le> i" "i < 68" | "68 \<le> i" "i < 77"
    | "77 \<le> i" "i < 80" | "80 \<le> i" "i < 88" | "88 \<le> i" "i < 96" | "96 \<le> i"
    by linarith
  then show ?thesis
    using i len
    by cases
      (simp_all add: endpoints_loop_Memory [OF i eps] interface_at nth endpoint_field_nth
        split: option.split)
qed

lemma read_bytes_4:
  "read_bytes a 4 m = [m a, m (a + 1), m (a + 2), m (a + 3)]"
proof -
  have "[0..<4] = [0, 1, 2, Suc 2]"
    by (simp add: upt_rec)
  then show ?thesis
    by (simp add: read_bytes_def)
qed

lemma tail_nth:
  assumes len: "length hb = 4" "length ob = 4" "length dev = 18" "length cfg = 10"
    and i: "i < 96"
  shows "(hb @ ob @ replicate 28 0 @ dev @ replicate 2 0 @ cfg @ replicate 30 0) ! i =
         (if i < 4 then hb ! i
          else if i < 8 then ob ! (i - 4)
          else if 36 \<le> i \<and> i < 54 then dev ! (i - 36)
          else if 56 \<le> i \<and> i < 66 then cfg ! (i - 56)
          else 0)"
proof -
  consider "i < 4" | "4 \<le> i" "i < 8" | "8 \<le> i" "i < 36" | "36 \<le> i" "i < 54"
    | "54 \<le> i" "i < 56" | "56 \<le> i" "i < 66" | "66 \<le> i"
    by linarith
  then show ?thesis
    using i by cases (auto simp add: nth_append len)
qed

lemma GetDeviceInfo_success_state:
  assumes success: "GetDeviceInfo env device req st = Some (GetDefaultReply IPC_SUCCESS, st')"
    and host: "GetDeviceById env (host_id device) = Some host_device"
    and iface: "find (matches device (Read_U8 (buffer_in req + 8) (Memory st)))
                  (GetInterfaces host_device 0) = Some it"
  shows "\<exists>m. st' = endpoints_loop env device req
                  (GetEndpoints host_device 0 (bInterfaceNumber it) (bAlternateSetting it))
                  (st\<lparr>Memory := m\<rparr>)"
proof -
  from success have buf: "buffer_out req \<noteq> 0" "buffer_out_size req = 0x60"
    using GetDeviceInfo_success_buffer by blast+
  from GetDeviceInfo_success_names [OF success] host
  obtain config configs where config: "GetConfigurations host_device = config # configs"
    by auto
  show ?thesis
    using success unfolding GetDeviceInfo_found [OF buf host config iface] by auto
qed

lemma last_matching_address:
  assumes set: "bEndpointAddress ` {e \<in> set es. bmAttributes e = ENDPOINT_INTERRUPT} = {0x81, 0x02}"
  shows "\<exists>e. last_matching is_interrupt_in es = Some e \<and> bEndpointAddress e = 0x81"
    and "\<exists>e. last_matching is_interrupt_out es = Some e \<and> bEndpointAddress e = 0x02"
proof -
  have bits: "(0x81 :: u8) AND ENDPOINT_IN \<noteq> 0" "(0x02 :: u8) AND ENDPOINT_IN = 0"
    by (simp_all add: ENDPOINT_IN_def)
  have mem: "bEndpointAddress e = 0x81 \<or> bEndpointAddress e = 0x02"
    if "e \<in> set es" "bmAttributes e = ENDPOINT_INTERRUPT" for e
    using that set by blast
  from set have "0x81 \<in> bEndpointAddress ` {e \<in> set es. bmAttributes e = ENDPOINT_INTERRUPT}"
    by simp
  then obtain a where a: "a \<in> set es" "is_interrupt_in a"
    using bits by (auto simp add: is_interrupt_in_def)
  then have "last_matching is_interrupt_in es \<noteq> None"
    by (auto simp add: last_matching_None)
  then obtain e where e: "last_matching is_interrupt_in es = Some e" by auto
  from last_matching_Some [OF e] mem [of e] bits
  have "bEndpointAddress e = 0x81"
    by (auto simp add: is_interrupt_in_def)
  with e show "\<exists>e. last_matching is_interrupt_in es = Some e \<and> bEndpointAddress e = 0x81"
    by blast
  from set have "0x02 \<in> bEndpointAddress ` {e \<in> set es. bmAttributes e = ENDPOINT_INTERRUPT}"
    by simp
  then obtain b where b: "b \<in> set es" "is_interrupt_out b"
    using bits by (auto simp add: is_interrupt_out_def)
  then have "last_matching is_interrupt_out es \<noteq> None"
    by (auto simp add: last_matching_None)
  then obtain f where f: "last_matching is_interrupt_out es = Some f" by auto
  from last_matching_Some [OF f] mem [of f] bits
  have "bEndpointAddress f = 0x02"
    by (auto simp add: is_interrupt_out_def)
  with f show "\<exists>e. last_matching is_interrupt_out es = Some e \<and> bEndpointAddress e = 0x02"
    by blast
qed

subsection \<open>The concrete configuration, evaluated\<close>

lemma example_host_found:
  "GetDeviceById example_env (host_id example_device) = Some example_host"
  "GetDeviceById example_env (host_id example_device_in_only) = Some example_host"
  "GetDeviceById example_env (host_id example_device_out_only) = Some example_host"
  by (simp_all add: example_env_def example_device_def example_device_in_only_def
      example_device_out_only_def)

lemma example_config:
  "GetConfigurations example_host = [9, 2, 0, 34, 1, 1, 0, 0x80, 50, 0] # []"
  by (simp add: example_host_def)

lemma example_alt_setting:
  "Read_U8 (buffer_in (example_request r 0x1000 a n) + 8) (Memory example_state) = 0"
  "Read_U8 (buffer_in (example_request r 0x1000 a n) + 8) (Memory example_state_resolved) = 0"
  "Read_U8 (buffer_in (example_request r 0x1002 a n) + 8) (Memory example_state) = 1"
  by (simp_all add: example_request_def example_state_def example_state_resolved_def
      example_memory_def Read_U8_def)

lemma example_interface:
  "find (matches example_device 0) (GetInterfaces example_host 0) =
     Some \<lparr>bInterfaceNumber = 0, bAlternateSetting = 0\<rparr>"
  "find (matches example_device_in_only 0) (GetInterfaces example_host 0) =
     Some \<lparr>bInterfaceNumber = 1, bAlternateSetting = 0\<rparr>"
  "find (matches example_device_out_only 0) (GetInterfaces example_host 0) =
     Some \<lparr>bInterfaceNumber = 2, bAlternateSetting = 0\<rparr>"
  "find (matches example_device 1) (GetInterfaces example_host 0) = None"
  by (simp_all add: example_host_def matches_def example_device_def
      example_device_in_only_def example_device_out_only_def)

lemma example_endpoints:
  "GetEndpoints example_host 0 0 0 =
     [\<lparr>bEndpointAddress = 0x81, bmAttributes = 3\<rparr>,
      \<lparr>bEndpointAddress = 0x02, bmAttributes = 3\<rparr>]"
  "GetEndpoints example_host 0 1 0 =
     [\<lparr>bEndpointAddress = 0x83, bmAttributes = 3\<rparr>,
      \<lparr>bEndpointAddress = 0x04, bmAttributes = 2\<rparr>]"
  "GetEndpoints example_host 0 2 0 = [\<lparr>bEndpointAddress = 0x05, bmAttributes = 3\<rparr>]"
  by (simp_all add: example_host_def)

lemma example_handle:
  "Read_U32 0x1000 (Memory example_state) = 0x00020001"
  "Read_U32 0x1000 (Memset 0x2000 0 0x60 (Memory example_state)) = 0x00020001"
  "Read_U32 0x1000 (Memset 0x1000 0 0x60 (Memory example_state)) = 0"
  "Read_U32 0x1002 (Memset 0x2000 0 0x60 (Memory example_state)) = 0x00010000"
  by (simp_all add: example_state_def example_memory_def Read_U32_def Memset_def)

lemma example_be32:
  "be32 0x00020001 = [0, 2, 0, 1]" "be32 1 = [0, 0, 0, 1]" "be32 0 = [0, 0, 0, 0]"
  "be32 0x00010000 = [0, 1, 0, 0]"
  by (simp_all add: be32_def)

lemma example_is_interrupt:
  "is_interrupt_in \<lparr>bEndpointAddress = 0x81, bmAttributes = 3\<rparr>"
  "is_interrupt_out \<lparr>bEndpointAddress = 0x02, bmAttributes = 3\<rparr>"
  "\<not> is_interrupt_out \<lparr>bEndpointAddress = 0x81, bmAttributes = 3\<rparr>"
  "\<not> is_interrupt_in \<lparr>bEndpointAddress = 0x02, bmAttributes = 3\<rparr>"
  "is_interrupt_in \<lparr>bEndpointAddress = 0x83, bmAttributes = 3\<rparr>"
  "\<not> is_interrupt_out \<lparr>bEndpointAddress = 0x83, bmAttributes = 3\<rparr>"
  "\<not> is_interrupt_in \<lparr>bEndpointAddress = 0x04, bmAttributes = 2\<rparr>"
  "\<not> is_interrupt_out \<lparr>bEndpointAddress = 0x04, bmAttributes = 2\<rparr>"
  "\<not> is_interrupt_in \<lparr>bEndpointAddress = 0x05, bmAttributes = 3\<rparr>"
  "is_interrupt_out \<lparr>bEndpointAddress = 0x05, bmAttributes = 3\<rparr>"
  by (simp_all add: is_interrupt_in_def is_interrupt_out_def ENDPOINT_INTERRUPT_def
      ENDPOINT_IN_def)

lemma example_buffer:
  "buffer_out (example_request r a 0x2000 0x60) \<noteq> 0"
  "buffer_out_size (example_request r a 0x2000 0x60) = 0x60"
  by (simp_all add: example_request_def)

lemma example_queried:
  "GetDeviceInfo example_env example_device (example_request 3 0x1000 0x2000 0x60)
     example_state = Some (GetDefaultReply IPC_SUCCESS, example_queried)"
proof -
  have iface: "find (matches example_device
                 (Read_U8 (buffer_in (example_request 3 0x1000 0x2000 0x60) + 8)
                    (Memory example_state)))
                 (GetInterfaces example_host 0) =
               Some \<lparr>bInterfaceNumber = 0, bAlternateSetting = 0\<rparr>"
    by (simp add: example_alt_setting example_interface)
  have "example_queried =
          snd (the (GetDeviceInfo example_env example_device
            (example_request 3 0x1000 0x2000 0x60) example_state))"
    by (simp add: example_queried_def example_request_def)
  then show ?thesis
    unfolding GetDeviceInfo_found [OF example_buffer example_host_found(1) example_config iface]
    by simp
qed

lemma example_selector:
  "Read_U32 0x3008 example_memory = 0"
  "Read_U32 0x1008 example_memory = 0x102"
  by (simp_all add: example_memory_def Read_U32_def)

lemma example_submit:
  "SubmitTransfer_result example_host message = IPC_SUCCESS"
  "host_id example_device = 7"
  by (simp_all add: example_host_def example_device_def)

subsection \<open>Device parameters\<close>

text \<open>
  C5. \<^verbatim>\<open>GetDeviceInfo\<close> answers a request whose output address is zero or whose
  output size is not \<open>0x60\<close> with invalid-argument, and the state, guest memory
  included, is the one before the call.
\<close>

theorem bad_output_buffer_rejected:
  assumes "buffer_out req = 0 \<or> buffer_out_size req \<noteq> 0x60"
  shows "GetDeviceInfo env device req st = Some (GetDefaultReply IPC_EINVAL, st)"
  using assms by (auto simp add: GetDeviceInfo_def)

theorem bad_output_buffer_rejected_witness:
  "(buffer_out (example_request 3 0x1000 0x2000 0x5F) = 0 \<or>
    buffer_out_size (example_request 3 0x1000 0x2000 0x5F) \<noteq> 0x60) \<and>
   GetDeviceInfo example_env example_device (example_request 3 0x1000 0x2000 0x5F)
     example_state = Some (GetDefaultReply IPC_EINVAL, example_state)"
proof -
  have h: "buffer_out (example_request 3 0x1000 0x2000 0x5F) = 0 \<or>
           buffer_out_size (example_request 3 0x1000 0x2000 0x5F) \<noteq> 0x60"
    by (simp add: example_request_def)
  show ?thesis
    using h bad_output_buffer_rejected [OF h, of example_env example_device example_state]
    by simp
qed

text \<open>
  C4. The claim as stated fails where the input handle field lies inside the output
  buffer: \<^verbatim>\<open>GetDeviceInfo\<close> reads the handle after it has zero-filled the output
  buffer. With both buffers at \<open>0x1000\<close> the request carries the handle bytes
  \<open>00 02 00 01\<close>, the query succeeds, and offset 0 of the output holds four zero
  bytes.
\<close>

theorem device_parameters_layout_counterexample:
  "GetDeviceInfo example_env example_device (example_request 3 0x1000 0x1000 0x60)
     example_state \<noteq> None \<and>
   fst (the (GetDeviceInfo example_env example_device
     (example_request 3 0x1000 0x1000 0x60) example_state)) = GetDefaultReply IPC_SUCCESS \<and>
   read_bytes (buffer_in (example_request 3 0x1000 0x1000 0x60)) 4 (Memory example_state) =
     [0, 2, 0, 1] \<and>
   read_bytes (buffer_out (example_request 3 0x1000 0x1000 0x60)) 4
     (Memory (snd (the (GetDeviceInfo example_env example_device
        (example_request 3 0x1000 0x1000 0x60) example_state)))) = [0, 0, 0, 0]"
proof -
  let ?req = "example_request 3 0x1000 0x1000 0x60"
  let ?it = "\<lparr>bInterfaceNumber = 0, bAlternateSetting = 0\<rparr> :: InterfaceDescriptor"
  have out: "buffer_out ?req = 0x1000" and inp: "buffer_in ?req = 0x1000"
    and buf: "buffer_out ?req \<noteq> 0" "buffer_out_size ?req = 0x60"
    by (simp_all add: example_request_def)
  have iface: "find (matches example_device (Read_U8 (buffer_in ?req + 8) (Memory example_state)))
                 (GetInterfaces example_host 0) = Some ?it"
    by (simp add: example_alt_setting example_interface)
  have dev: "length (DeviceDescriptor_image example_env (GetDeviceDescriptor example_host)) = 18"
    and cfg: "length (ConfigDescriptor_image example_env [9, 2, 0, 34, 1, 1, 0, 0x80, 50, 0]) = 10"
    and ifc: "length (InterfaceDescriptor_image example_env ?it) = 9"
    and eps: "\<forall>e \<in> set (GetEndpoints example_host 0 (bInterfaceNumber ?it)
                         (bAlternateSetting ?it)).
               length (EndpointDescriptor_image example_env e) = 8"
    by (simp_all add: example_env_def example_host_def)
  note found = GetDeviceInfo_found [OF buf example_host_found(1) example_config iface]
  have before: "read_bytes (buffer_in ?req) 4 (Memory example_state) = [0, 2, 0, 1]"
    by (simp add: inp read_bytes_4 example_state_def example_memory_def)
  have "read_bytes (buffer_out ?req) 4
          (Memory (snd (the (GetDeviceInfo example_env example_device ?req example_state)))) =
        [0, 0, 0, 0]"
    unfolding found option.sel snd_conv
  proof (rule read_bytes_eqI)
    fix i :: nat
    assume "i < 4"
    then have i: "i < 2 ^ 32" by simp
    show "Memory (endpoints_loop example_env example_device ?req
             (GetEndpoints example_host 0 (bInterfaceNumber ?it) (bAlternateSetting ?it))
             (example_state\<lparr>Memory :=
                CopyToEmu (buffer_out ?req + 68) (InterfaceDescriptor_image example_env ?it)
                  (CopyToEmu (buffer_out ?req + 56)
                     (ConfigDescriptor_image example_env [9, 2, 0, 34, 1, 1, 0, 0x80, 50, 0])
                     (CopyToEmu (buffer_out ?req + 36)
                        (DeviceDescriptor_image example_env (GetDeviceDescriptor example_host))
                        (Write_U32 1 (buffer_out ?req + 4)
                           (Write_U32
                              (Read_U32 (buffer_in ?req)
                                 (Memset (buffer_out ?req) 0 0x60 (Memory example_state)))
                              (buffer_out ?req)
                              (Memset (buffer_out ?req) 0 0x60 (Memory example_state))))))\<rparr>))
            (buffer_out ?req + of_nat i) = [0, 0, 0, 0] ! i"
    proof -
      consider "i = 0" | "i = 1" | "i = 2" | "i = 3"
        using \<open>i < 4\<close> by linarith
      then show ?thesis
        unfolding params_at [OF i dev cfg ifc eps]
        by cases (simp_all add: out inp example_handle example_be32)
    qed
  qed simp
  with before show ?thesis
    unfolding found by simp
qed

text \<open>
  C4, amended. After a successful \<^verbatim>\<open>GetDeviceInfo\<close>, with descriptor structs of
  18, 10, 9 and 8 bytes, the \<open>0x60\<close> bytes of the output buffer are: at offset 0 the
  32-bit value found at the input handle field once the output buffer has been
  zero-filled, at 4 the constant 1, at 36 the device descriptor, at 56 the first
  configuration descriptor, at 68 the matching interface descriptor, at 80 the last
  interrupt IN endpoint descriptor of that interface and at 88 its last interrupt OUT
  endpoint descriptor, each of the two if there is one; every other byte of the
  buffer is zero, endpoints that are not interrupt endpoints leave no trace, and guest
  memory outside the buffer is as before. The value at offset 0 is the request's
  input handle whenever the four bytes of the handle field lie outside the output
  buffer.
\<close>

theorem device_parameters_layout:
  assumes success: "GetDeviceInfo env device req st = Some (GetDefaultReply IPC_SUCCESS, st')"
    and host: "GetDeviceById env (host_id device) = Some host_device"
    and config: "GetConfigurations host_device = config # configs"
    and iface: "find (matches device (Read_U8 (buffer_in req + 8) (Memory st)))
                  (GetInterfaces host_device 0) = Some it"
    and dev_size: "length (DeviceDescriptor_image env (GetDeviceDescriptor host_device)) = 18"
    and cfg_size: "length (ConfigDescriptor_image env config) = 10"
    and ifc_size: "length (InterfaceDescriptor_image env it) = 9"
    and ep_size: "\<forall>e \<in> set (GetEndpoints host_device 0 (bInterfaceNumber it)
                               (bAlternateSetting it)).
                    length (EndpointDescriptor_image env e) = 8"
  shows "read_bytes (buffer_out req) 0x60 (Memory st') =
           be32 (Read_U32 (buffer_in req) (Memset (buffer_out req) 0 0x60 (Memory st))) @
           be32 1 @ replicate 28 0 @
           DeviceDescriptor_image env (GetDeviceDescriptor host_device) @ replicate 2 0 @
           ConfigDescriptor_image env config @ replicate 2 0 @
           InterfaceDescriptor_image env it @ replicate 3 0 @
           endpoint_field (EndpointDescriptor_image env)
             (last_matching is_interrupt_in
                (GetEndpoints host_device 0 (bInterfaceNumber it) (bAlternateSetting it))) @
           endpoint_field (EndpointDescriptor_image env)
             (last_matching is_interrupt_out
                (GetEndpoints host_device 0 (bInterfaceNumber it) (bAlternateSetting it))) \<and>
         (\<forall>x. 0x60 \<le> x - buffer_out req \<longrightarrow> Memory st' x = Memory st x) \<and>
         ((\<forall>j \<in> {0, 1, 2, 3}. 0x60 \<le> buffer_in req + j - buffer_out req) \<longrightarrow>
            Read_U32 (buffer_in req) (Memset (buffer_out req) 0 0x60 (Memory st)) =
            Read_U32 (buffer_in req) (Memory st))"
proof -
  let ?es = "GetEndpoints host_device 0 (bInterfaceNumber it) (bAlternateSetting it)"
  let ?h = "Read_U32 (buffer_in req) (Memset (buffer_out req) 0 0x60 (Memory st))"
  let ?dev = "DeviceDescriptor_image env (GetDeviceDescriptor host_device)"
  let ?cfg = "ConfigDescriptor_image env config"
  let ?ifc = "InterfaceDescriptor_image env it"
  let ?layout = "be32 ?h @ be32 1 @ replicate 28 0 @ ?dev @ replicate 2 0 @ ?cfg @
    replicate 2 0 @ ?ifc @ replicate 3 0 @
    endpoint_field (EndpointDescriptor_image env) (last_matching is_interrupt_in ?es) @
    endpoint_field (EndpointDescriptor_image env) (last_matching is_interrupt_out ?es)"
  from success have buf: "buffer_out req \<noteq> 0" "buffer_out_size req = 0x60"
    using GetDeviceInfo_success_buffer by blast+
  have st': "st' = endpoints_loop env device req ?es
               (st\<lparr>Memory := CopyToEmu (buffer_out req + 68) ?ifc
                  (CopyToEmu (buffer_out req + 56) ?cfg
                    (CopyToEmu (buffer_out req + 36) ?dev
                      (Write_U32 1 (buffer_out req + 4)
                        (Write_U32 ?h (buffer_out req)
                          (Memset (buffer_out req) 0 0x60 (Memory st))))))\<rparr>)"
    using success unfolding GetDeviceInfo_found [OF buf host config iface] by simp
  have at: "Memory st' (buffer_out req + of_nat i) =
              (if i < 96 then ?layout ! i else Memory st (buffer_out req + of_nat i))"
    if "i < 2 ^ 32" for i
    unfolding st' using that dev_size cfg_size ifc_size ep_size by (rule params_at)
  have len: "length ?layout = 96"
    using dev_size cfg_size ifc_size
    by (simp add: be32_def length_endpoint_field [OF ep_size])
  have "read_bytes (buffer_out req) 96 (Memory st') = ?layout"
    using len by (rule read_bytes_eqI) (simp add: at)
  moreover have "\<forall>x. 0x60 \<le> x - buffer_out req \<longrightarrow> Memory st' x = Memory st x"
    by (rule outside_buffer) (simp add: at)
  moreover have "(\<forall>j \<in> {0, 1, 2, 3}. 0x60 \<le> buffer_in req + j - buffer_out req) \<longrightarrow>
      ?h = Read_U32 (buffer_in req) (Memory st)"
    using Read_U32_Memset_outside [of "0x60" "buffer_in req" "buffer_out req"] by blast
  ultimately show ?thesis by simp
qed

theorem device_parameters_layout_witness:
  "GetDeviceInfo example_env example_device (example_request 3 0x1000 0x2000 0x60)
     example_state \<noteq> None \<and>
   fst (the (GetDeviceInfo example_env example_device
     (example_request 3 0x1000 0x2000 0x60) example_state)) = GetDefaultReply IPC_SUCCESS \<and>
   read_bytes 0x2000 0x60
     (Memory (snd (the (GetDeviceInfo example_env example_device
        (example_request 3 0x1000 0x2000 0x60) example_state)))) =
     [0, 2, 0, 1] @ [0, 0, 0, 1] @ replicate 28 0 @
     [18, 1, 2, 0, 0, 0, 0, 64, 0x05, 0x7E, 0x03, 0x06, 1, 0, 1, 2, 0, 1] @ replicate 2 0 @
     [9, 2, 0, 34, 1, 1, 0, 0x80, 50, 0] @ replicate 2 0 @
     [9, 4, 0, 0, 2, 3, 0, 0, 0] @ replicate 3 0 @
     [7, 5, 0x81, 3, 0, 8, 10, 0] @ [7, 5, 0x02, 3, 0, 8, 10, 0] \<and>
   0x60 \<le> buffer_in (example_request 3 0x1000 0x2000 0x60) -
             buffer_out (example_request 3 0x1000 0x2000 0x60) \<and>
   Read_U32 0x1000 (Memset 0x2000 0 0x60 (Memory example_state)) =
     Read_U32 0x1000 (Memory example_state) \<and>
   Read_U32 0x1000 (Memory example_state) = 0x00020001"
proof -
  let ?req = "example_request 3 0x1000 0x2000 0x60"
  let ?it = "\<lparr>bInterfaceNumber = 0, bAlternateSetting = 0\<rparr> :: InterfaceDescriptor"
  have out: "buffer_out ?req = 0x2000" and inp: "buffer_in ?req = 0x1000"
    and buf: "buffer_out ?req \<noteq> 0" "buffer_out_size ?req = 0x60"
    by (simp_all add: example_request_def)
  have iface: "find (matches example_device (Read_U8 (buffer_in ?req + 8) (Memory example_state)))
                 (GetInterfaces example_host 0) = Some ?it"
    by (simp add: example_alt_setting example_interface)
  have dev: "length (DeviceDescriptor_image example_env (GetDeviceDescriptor example_host)) = 18"
    and cfg: "length (ConfigDescriptor_image example_env [9, 2, 0, 34, 1, 1, 0, 0x80, 50, 0]) = 10"
    and ifc: "length (InterfaceDescriptor_image example_env ?it) = 9"
    and eps: "\<forall>e \<in> set (GetEndpoints example_host 0 (bInterfaceNumber ?it)
                         (bAlternateSetting ?it)).
               length (EndpointDescriptor_image example_env e) = 8"
    by (simp_all add: example_env_def example_host_def)
  have images:
    "DeviceDescriptor_image example_env (GetDeviceDescriptor example_host) =
       [18, 1, 2, 0, 0, 0, 0, 64, 0x05, 0x7E, 0x03, 0x06, 1, 0, 1, 2, 0, 1]"
    "ConfigDescriptor_image example_env [9, 2, 0, 34, 1, 1, 0, 0x80, 50, 0] =
       [9, 2, 0, 34, 1, 1, 0, 0x80, 50, 0]"
    "InterfaceDescriptor_image example_env ?it = [9, 4, 0, 0, 2, 3, 0, 0, 0]"
    "EndpointDescriptor_image example_env \<lparr>bEndpointAddress = 0x81, bmAttributes = 3\<rparr> =
       [7, 5, 0x81, 3, 0, 8, 10, 0]"
    "EndpointDescriptor_image example_env \<lparr>bEndpointAddress = 0x02, bmAttributes = 3\<rparr> =
       [7, 5, 0x02, 3, 0, 8, 10, 0]"
    by (simp_all add: example_env_def example_host_def)
  obtain st' where found:
    "GetDeviceInfo example_env example_device ?req example_state =
       Some (GetDefaultReply IPC_SUCCESS, st')"
    using GetDeviceInfo_found [OF buf example_host_found(1) example_config iface] by blast
  show ?thesis
    using device_parameters_layout
      [OF found example_host_found(1) example_config iface dev cfg ifc eps]
    unfolding found
    by (simp add: out inp example_handle example_be32 images example_endpoints
        example_is_interrupt endpoint_field_def)
qed

text \<open>
  C1. The claim as stated fails: when no interface matches, the reply is
  invalid-argument, but the output buffer is not left fully zero. The request below
  asks for alternate setting 1, which interface 0 of the device does not have; the
  bytes at offset 4 of its output buffer then hold the constant 1.
\<close>

theorem no_matching_interface_counterexample:
  "find (matches example_device
           (Read_U8 (buffer_in (example_request 3 0x1002 0x2000 0x60) + 8)
              (Memory example_state)))
     (GetInterfaces example_host 0) = None \<and>
   GetDeviceInfo example_env example_device (example_request 3 0x1002 0x2000 0x60)
     example_state \<noteq> None \<and>
   fst (the (GetDeviceInfo example_env example_device
     (example_request 3 0x1002 0x2000 0x60) example_state)) = GetDefaultReply IPC_EINVAL \<and>
   read_bytes (buffer_out (example_request 3 0x1002 0x2000 0x60) + 4) 4
     (Memory (snd (the (GetDeviceInfo example_env example_device
        (example_request 3 0x1002 0x2000 0x60) example_state)))) = [0, 0, 0, 1]"
proof -
  let ?req = "example_request 3 0x1002 0x2000 0x60"
  have out: "buffer_out ?req = 0x2000" and inp: "buffer_in ?req = 0x1002"
    and buf: "buffer_out ?req \<noteq> 0" "buffer_out_size ?req = 0x60"
    by (simp_all add: example_request_def)
  have iface: "find (matches example_device (Read_U8 (buffer_in ?req + 8) (Memory example_state)))
                 (GetInterfaces example_host 0) = None"
    by (simp add: example_alt_setting example_interface)
  have dev: "length (DeviceDescriptor_image example_env (GetDeviceDescriptor example_host)) = 18"
    and cfg: "length (ConfigDescriptor_image example_env [9, 2, 0, 34, 1, 1, 0, 0x80, 50, 0]) = 10"
    by (simp_all add: example_env_def example_host_def)
  note not_found =
    GetDeviceInfo_not_found [OF buf example_host_found(1) example_config iface]
  have at: "CopyToEmu (buffer_out ?req + 56)
              (ConfigDescriptor_image example_env [9, 2, 0, 34, 1, 1, 0, 0x80, 50, 0])
              (CopyToEmu (buffer_out ?req + 36)
                 (DeviceDescriptor_image example_env (GetDeviceDescriptor example_host))
                 (Write_U32 1 (buffer_out ?req + 4)
                    (Write_U32 h (buffer_out ?req)
                       (Memset (buffer_out ?req) 0 0x60 (Memory example_state)))))
              (buffer_out ?req + of_nat i) = be32 1 ! (i - 4)"
    if "4 \<le> i" "i < 8" for i h
    using that dev cfg by (simp add: descriptors_at)
  show ?thesis
    unfolding not_found option.sel snd_conv fst_conv
    using iface at [of 4] at [of 5] at [of 6] at [of 7]
    by (simp add: read_bytes_4 example_be32 add.assoc)
qed

text \<open>
  C1, amended. When the output buffer is valid, the host device is found with a first
  configuration, and no interface has the device's interface number and the
  alternate setting of the request, \<^verbatim>\<open>GetDeviceInfo\<close> answers invalid-argument; no
  interface or endpoint descriptor has been written and the endpoint table and the
  host devices are untouched, but the output buffer has been zero-filled and then
  holds the handle field at 0, the constant 1 at 4, the device descriptor at 36 and
  the first configuration descriptor at 56 (descriptor structs of 18 and 10 bytes);
  every other byte of the buffer is zero and guest memory outside it is as before.
\<close>

theorem no_matching_interface:
  assumes buf: "buffer_out req \<noteq> 0" "buffer_out_size req = 0x60"
    and host: "GetDeviceById env (host_id device) = Some host_device"
    and config: "GetConfigurations host_device = config # configs"
    and iface: "find (matches device (Read_U8 (buffer_in req + 8) (Memory st)))
                  (GetInterfaces host_device 0) = None"
    and dev_size: "length (DeviceDescriptor_image env (GetDeviceDescriptor host_device)) = 18"
    and cfg_size: "length (ConfigDescriptor_image env config) = 10"
  shows "\<exists>st'. GetDeviceInfo env device req st = Some (GetDefaultReply IPC_EINVAL, st') \<and>
           read_bytes (buffer_out req) 0x60 (Memory st') =
             be32 (Read_U32 (buffer_in req) (Memset (buffer_out req) 0 0x60 (Memory st))) @
             be32 1 @ replicate 28 0 @
             DeviceDescriptor_image env (GetDeviceDescriptor host_device) @ replicate 2 0 @
             ConfigDescriptor_image env config @ replicate 30 0 \<and>
           (\<forall>x. 0x60 \<le> x - buffer_out req \<longrightarrow> Memory st' x = Memory st x) \<and>
           m_additional_device_data st' = m_additional_device_data st \<and>
           host_calls st' = host_calls st"
proof -
  let ?h = "Read_U32 (buffer_in req) (Memset (buffer_out req) 0 0x60 (Memory st))"
  let ?dev = "DeviceDescriptor_image env (GetDeviceDescriptor host_device)"
  let ?cfg = "ConfigDescriptor_image env config"
  let ?m = "CopyToEmu (buffer_out req + 56) ?cfg
              (CopyToEmu (buffer_out req + 36) ?dev
                (Write_U32 1 (buffer_out req + 4)
                  (Write_U32 ?h (buffer_out req)
                    (Memset (buffer_out req) 0 0x60 (Memory st)))))"
  let ?layout = "be32 ?h @ be32 1 @ replicate 28 0 @ ?dev @ replicate 2 0 @ ?cfg @
    replicate 30 0"
  have hb: "length (be32 ?h) = 4" "length (be32 1) = 4"
    by (simp_all add: be32_def)
  have at: "?m (buffer_out req + of_nat i) =
              (if i < 96 then ?layout ! i else Memory st (buffer_out req + of_nat i))"
    if "i < 2 ^ 32" for i
    using that dev_size cfg_size
    by (simp add: descriptors_at tail_nth [OF hb])
  have len: "length ?layout = 96"
    using dev_size cfg_size by (simp add: be32_def)
  have "read_bytes (buffer_out req) 96 ?m = ?layout"
    using len by (rule read_bytes_eqI) (simp add: at)
  moreover have "\<forall>x. 0x60 \<le> x - buffer_out req \<longrightarrow> ?m x = Memory st x"
    by (rule outside_buffer) (simp add: at)
  ultimately show ?thesis
    unfolding GetDeviceInfo_not_found [OF buf host config iface] by simp
qed

theorem no_matching_interface_witness:
  "buffer_out (example_request 3 0x1002 0x2000 0x60) \<noteq> 0 \<and>
   buffer_out_size (example_request 3 0x1002 0x2000 0x60) = 0x60 \<and>
   find (matches example_device
           (Read_U8 (buffer_in (example_request 3 0x1002 0x2000 0x60) + 8)
              (Memory example_state)))
     (GetInterfaces example_host 0) = None \<and>
   (\<exists>st'. GetDeviceInfo example_env example_device (example_request 3 0x1002 0x2000 0x60)
            example_state = Some (GetDefaultReply IPC_EINVAL, st') \<and>
          read_bytes 0x2000 0x60 (Memory st') =
            [0, 1, 0, 0] @ [0, 0, 0, 1] @ replicate 28 0 @
            [18, 1, 2, 0, 0, 0, 0, 64, 0x05, 0x7E, 0x03, 0x06, 1, 0, 1, 2, 0, 1] @
            replicate 2 0 @ [9, 2, 0, 34, 1, 1, 0, 0x80, 50, 0] @ replicate 30 0 \<and>
          m_additional_device_data st' = m_additional_device_data example_state)"
proof -
  let ?req = "example_request 3 0x1002 0x2000 0x60"
  have out: "buffer_out ?req = 0x2000" and inp: "buffer_in ?req = 0x1002"
    and buf: "buffer_out ?req \<noteq> 0" "buffer_out_size ?req = 0x60"
    by (simp_all add: example_request_def)
  have iface: "find (matches example_device (Read_U8 (buffer_in ?req + 8) (Memory example_state)))
                 (GetInterfaces example_host 0) = None"
    by (simp add: example_alt_setting example_interface)
  have dev: "length (DeviceDescriptor_image example_env (GetDeviceDescriptor example_host)) = 18"
    and cfg: "length (ConfigDescriptor_image example_env [9, 2, 0, 34, 1, 1, 0, 0x80, 50, 0]) = 10"
    by (simp_all add: example_env_def example_host_def)
  have images:
    "DeviceDescriptor_image example_env (GetDeviceDescriptor example_host) =
       [18, 1, 2, 0, 0, 0, 0, 64, 0x05, 0x7E, 0x03, 0x06, 1, 0, 1, 2, 0, 1]"
    "ConfigDescriptor_image example_env [9, 2, 0, 34, 1, 1, 0, 0x80, 50, 0] =
       [9, 2, 0, 34, 1, 1, 0, 0x80, 50, 0]"
    by (simp_all add: example_env_def example_host_def)
  show ?thesis
    using buf iface
      no_matching_interface [OF buf example_host_found(1) example_config iface dev cfg]
    by (auto simp add: out inp example_handle example_be32 images)
qed

subsection \<open>The endpoint table\<close>

text \<open>
  C10. A successful \<^verbatim>\<open>GetDeviceInfo\<close> overwrites only the member of the device's
  endpoint-table entry for which the matched interface has an interrupt endpoint: if
  none of its endpoints is an interrupt OUT endpoint, \<^verbatim>\<open>interrupt_out_endpoint\<close>
  keeps its value, and likewise \<^verbatim>\<open>interrupt_in_endpoint\<close> if none is an interrupt
  IN endpoint. The entries of all other devices are unchanged.
\<close>

theorem endpoint_table_frame:
  assumes success: "GetDeviceInfo env device req st = Some (GetDefaultReply IPC_SUCCESS, st')"
    and host: "GetDeviceById env (host_id device) = Some host_device"
    and iface: "find (matches device (Read_U8 (buffer_in req + 8) (Memory st)))
                  (GetInterfaces host_device 0) = Some it"
  shows "((\<forall>e \<in> set (GetEndpoints host_device 0 (bInterfaceNumber it) (bAlternateSetting it)).
             \<not> is_interrupt_out e) \<longrightarrow>
          interrupt_out_endpoint (m_additional_device_data st' (slot device)) =
          interrupt_out_endpoint (m_additional_device_data st (slot device))) \<and>
         ((\<forall>e \<in> set (GetEndpoints host_device 0 (bInterfaceNumber it) (bAlternateSetting it)).
             \<not> is_interrupt_in e) \<longrightarrow>
          interrupt_in_endpoint (m_additional_device_data st' (slot device)) =
          interrupt_in_endpoint (m_additional_device_data st (slot device))) \<and>
         (\<forall>s. s \<noteq> slot device \<longrightarrow>
            m_additional_device_data st' s = m_additional_device_data st s)"
proof -
  let ?es = "GetEndpoints host_device 0 (bInterfaceNumber it) (bAlternateSetting it)"
  obtain m where st': "st' = endpoints_loop env device req ?es (st\<lparr>Memory := m\<rparr>)"
    using GetDeviceInfo_success_state [OF success host iface] by blast
  have "interrupt_out_endpoint (m_additional_device_data st' (slot device)) =
        interrupt_out_endpoint (m_additional_device_data st (slot device))"
    if "\<forall>e \<in> set ?es. \<not> is_interrupt_out e"
    using that last_matching_None [of is_interrupt_out ?es]
    by (simp add: st' endpoints_loop_out_endpoint)
  moreover have "interrupt_in_endpoint (m_additional_device_data st' (slot device)) =
        interrupt_in_endpoint (m_additional_device_data st (slot device))"
    if "\<forall>e \<in> set ?es. \<not> is_interrupt_in e"
    using that last_matching_None [of is_interrupt_in ?es]
    by (simp add: st' endpoints_loop_in_endpoint)
  moreover have "m_additional_device_data st' s = m_additional_device_data st s"
    if "s \<noteq> slot device" for s
    using that by (simp add: st' endpoints_loop_other_slot)
  ultimately show ?thesis by blast
qed

theorem endpoint_table_frame_witness:
  "filter is_interrupt_out (GetEndpoints example_host 0 1 0) = [] \<and>
   filter is_interrupt_in (GetEndpoints example_host 0 2 0) = [] \<and>
   (\<exists>st'. GetDeviceInfo example_env example_device_in_only
            (example_request 3 0x1000 0x2000 0x60) example_state_resolved =
            Some (GetDefaultReply IPC_SUCCESS, st') \<and>
          interrupt_out_endpoint (m_additional_device_data st' 3) = 0x07) \<and>
   (\<exists>st'. GetDeviceInfo example_env example_device_out_only
            (example_request 3 0x1000 0x2000 0x60) example_state_resolved =
            Some (GetDefaultReply IPC_SUCCESS, st') \<and>
          interrupt_in_endpoint (m_additional_device_data st' 4) = 0x86)"
proof -
  let ?req = "example_request 3 0x1000 0x2000 0x60"
  let ?it1 = "\<lparr>bInterfaceNumber = 1, bAlternateSetting = 0\<rparr> :: InterfaceDescriptor"
  let ?it2 = "\<lparr>bInterfaceNumber = 2, bAlternateSetting = 0\<rparr> :: InterfaceDescriptor"
  have iface1: "find (matches example_device_in_only
                  (Read_U8 (buffer_in ?req + 8) (Memory example_state_resolved)))
                  (GetInterfaces example_host 0) = Some ?it1"
    and iface2: "find (matches example_device_out_only
                  (Read_U8 (buffer_in ?req + 8) (Memory example_state_resolved)))
                  (GetInterfaces example_host 0) = Some ?it2"
    by (simp_all add: example_alt_setting example_interface)
  have no_out: "\<forall>e \<in> set (GetEndpoints example_host 0 1 0). \<not> is_interrupt_out e"
    and no_in: "\<forall>e \<in> set (GetEndpoints example_host 0 2 0). \<not> is_interrupt_in e"
    by (simp_all add: example_endpoints example_is_interrupt)
  obtain st1 where found1:
    "GetDeviceInfo example_env example_device_in_only ?req example_state_resolved =
       Some (GetDefaultReply IPC_SUCCESS, st1)"
    using GetDeviceInfo_found [OF example_buffer example_host_found(2) example_config iface1]
    by blast
  obtain st2 where found2:
    "GetDeviceInfo example_env example_device_out_only ?req example_state_resolved =
       Some (GetDefaultReply IPC_SUCCESS, st2)"
    using GetDeviceInfo_found [OF example_buffer example_host_found(3) example_config iface2]
    by blast
  have "interrupt_out_endpoint (m_additional_device_data st1 3) = 0x07"
    using endpoint_table_frame [OF found1 example_host_found(2) iface1] no_out
    by (simp add: example_device_in_only_def example_state_resolved_def)
  moreover have "interrupt_in_endpoint (m_additional_device_data st2 4) = 0x86"
    using endpoint_table_frame [OF found2 example_host_found(3) iface2] no_in
    by (simp add: example_device_out_only_def example_state_resolved_def)
  ultimately show ?thesis
    using no_out no_in found1 found2 by (simp add: filter_empty_conv)
qed

text \<open>
  C3. Let a parameter query succeed for a device whose matched interface has
  interrupt endpoints with the addresses \<open>0x81\<close> and \<open>0x02\<close> and no others. In every
  later state in which the device's endpoint-table entry is still the one the query
  left, \<^verbatim>\<open>SubmitTransfer\<close> hands an interrupt message to the host device with
  endpoint \<open>0x81\<close> if the 32-bit value at offset 8 of the first input vector is zero,
  and with endpoint \<open>0x02\<close> otherwise.
\<close>

theorem interrupt_transfer_routing:
  assumes success: "GetDeviceInfo env device req st = Some (GetDefaultReply IPC_SUCCESS, st1)"
    and host: "GetDeviceById env (host_id device) = Some host_device"
    and iface: "find (matches device (Read_U8 (buffer_in req + 8) (Memory st)))
                  (GetInterfaces host_device 0) = Some it"
    and exposes: "bEndpointAddress `
                    {e \<in> set (GetEndpoints host_device 0 (bInterfaceNumber it)
                                (bAlternateSetting it)).
                     bmAttributes e = ENDPOINT_INTERRUPT} = {0x81, 0x02}"
    and later: "m_additional_device_data st2 (slot device) =
                m_additional_device_data st1 (slot device)"
    and intr: "request_v ioctlv = IOCTLV_USBV5_INTRMSG env"
    and labels: "IOCTLV_USBV5_CTRLMSG env \<noteq> IOCTLV_USBV5_INTRMSG env"
    and vec: "in_vectors ioctlv = v0 # vs"
  shows "SubmitTransfer env device target ioctlv st2 =
           Some (SubmitTransfer_result target
                   (V5IntrMessage ioctlv
                      (if Read_U32 (address v0 + 8) (Memory st2) = 0 then 0x81 else 0x02)),
                 st2\<lparr>host_calls := host_calls st2 @
                   [Call_SubmitTransfer (host_id device)
                      (V5IntrMessage ioctlv
                         (if Read_U32 (address v0 + 8) (Memory st2) = 0
                          then 0x81 else 0x02))]\<rparr>)"
proof -
  let ?es = "GetEndpoints host_device 0 (bInterfaceNumber it) (bAlternateSetting it)"
  obtain m where st1: "st1 = endpoints_loop env device req ?es (st\<lparr>Memory := m\<rparr>)"
    using GetDeviceInfo_success_state [OF success host iface] by blast
  have "interrupt_in_endpoint (m_additional_device_data st1 (slot device)) = 0x81"
    using last_matching_address(1) [OF exposes]
    by (auto simp add: st1 endpoints_loop_in_endpoint)
  moreover have "interrupt_out_endpoint (m_additional_device_data st1 (slot device)) = 0x02"
    using last_matching_address(2) [OF exposes]
    by (auto simp add: st1 endpoints_loop_out_endpoint)
  ultimately show ?thesis
    using later intr labels vec
    by (simp add: SubmitTransfer_def host_SubmitTransfer_def Let_def)
qed

theorem interrupt_transfer_routing_witness:
  "GetDeviceInfo example_env example_device (example_request 3 0x1000 0x2000 0x60)
     example_state = Some (GetDefaultReply IPC_SUCCESS, example_queried) \<and>
   SubmitTransfer example_env example_device example_host (example_ioctlv 19 0x3000 1)
     (example_queried\<lparr>Memory := example_memory\<rparr>) =
     Some (IPC_SUCCESS,
           example_queried\<lparr>Memory := example_memory,
             host_calls := host_calls example_queried @
               [Call_SubmitTransfer 7 (V5IntrMessage (example_ioctlv 19 0x3000 1) 0x81)]\<rparr>) \<and>
   SubmitTransfer example_env example_device example_host (example_ioctlv 19 0x1000 1)
     (example_queried\<lparr>Memory := example_memory\<rparr>) =
     Some (IPC_SUCCESS,
           example_queried\<lparr>Memory := example_memory,
             host_calls := host_calls example_queried @
               [Call_SubmitTransfer 7 (V5IntrMessage (example_ioctlv 19 0x1000 1) 0x02)]\<rparr>)"
proof -
  let ?req = "example_request 3 0x1000 0x2000 0x60"
  let ?it = "\<lparr>bInterfaceNumber = 0, bAlternateSetting = 0\<rparr> :: InterfaceDescriptor"
  let ?st2 = "example_queried\<lparr>Memory := example_memory\<rparr>"
  have iface: "find (matches example_device (Read_U8 (buffer_in ?req + 8) (Memory example_state)))
                 (GetInterfaces example_host 0) = Some ?it"
    by (simp add: example_alt_setting example_interface)
  have exposes: "bEndpointAddress `
                   {e \<in> set (GetEndpoints example_host 0 (bInterfaceNumber ?it)
                               (bAlternateSetting ?it)).
                    bmAttributes e = ENDPOINT_INTERRUPT} = {0x81, 0x02}"
  proof -
    have "{e \<in> set (GetEndpoints example_host 0 (bInterfaceNumber ?it)
                      (bAlternateSetting ?it)).
           bmAttributes e = ENDPOINT_INTERRUPT} =
          {\<lparr>bEndpointAddress = 0x81, bmAttributes = 3\<rparr>,
           \<lparr>bEndpointAddress = 0x02, bmAttributes = 3\<rparr>}"
      by (auto simp add: example_endpoints ENDPOINT_INTERRUPT_def)
    then show ?thesis by simp
  qed
  have later: "m_additional_device_data ?st2 (slot example_device) =
               m_additional_device_data example_queried (slot example_device)"
    by simp
  have labels: "IOCTLV_USBV5_CTRLMSG example_env \<noteq> IOCTLV_USBV5_INTRMSG example_env"
    by (simp add: example_env_def)
  have intr: "request_v (example_ioctlv 19 a 1) = IOCTLV_USBV5_INTRMSG example_env" for a
    by (simp add: example_ioctlv_def example_env_def)
  have vec: "in_vectors (example_ioctlv 19 a 1) = \<lparr>address = a, size_iov = 0x20\<rparr> # []" for a
    by (simp add: example_ioctlv_def)
  note route = interrupt_transfer_routing
    [OF example_queried example_host_found(1) iface exposes later intr labels vec]
  show ?thesis
    using example_queried route [of example_host "0x3000"] route [of example_host "0x1000"]
    by (simp add: example_selector example_submit)
qed

end
